theory Spec2Isabelle
  imports Complex_Main "HOL-Library.Dlist"
begin

section \<open>Python values, failures and sequences\<close>

text \<open>
  The feature factories of \<^verbatim>\<open>snips_nlu/slot_filler/feature_factory.py\<close> are
  embedded as HOL functions. A Python exception is a value of type \<open>error\<close>; a
  function that can raise returns \<open>error + 'a\<close>, with \<open>Inl\<close> for the exception.
  Python's \<open>None\<close> as a feature value ("no value") is \<open>None\<close> of an option type.
\<close>

datatype error =
  KeyError string | ValueError string | IndexError | TypeError | AttributeError

text \<open>
  The values a configuration's \<open>args\<close> mapping holds. The class docstrings give the
  types: \<open>n\<close> and \<open>tagging_scheme_code\<close> are ints, \<open>use_stemming\<close> is a bool, the
  names are strings, \<open>entity_labels\<close> is a list of strings.
\<close>

datatype pyval = PyNone | PyBool bool | PyInt int | PyStr string | PyStrList "string list"

definition bind_res :: "error + 'a \<Rightarrow> ('a \<Rightarrow> error + 'b) \<Rightarrow> error + 'b" where
  "bind_res r k = (case r of Inl e \<Rightarrow> Inl e | Inr x \<Rightarrow> k x)"

text \<open>A list comprehension whose element expression can raise: the first failure ends it.\<close>

fun traverse :: "('a \<Rightarrow> error + 'b) \<Rightarrow> 'a list \<Rightarrow> error + 'b list" where
  "traverse g [] = Inr []"
| "traverse g (x # xs) =
     (case g x of Inl e \<Rightarrow> Inl e
      | Inr y \<Rightarrow> (case traverse g xs of Inl e \<Rightarrow> Inl e | Inr ys \<Rightarrow> Inr (y # ys)))"

text \<open>
  \<open>xs[i]\<close>: a negative index counts from the end, and an index outside
  \<open>[-len(xs), len(xs))\<close> raises IndexError.
\<close>

definition py_index :: "'a list \<Rightarrow> int \<Rightarrow> error + 'a" where
  "py_index xs i =
     (if 0 \<le> i \<and> i < int (length xs) then Inr (xs ! nat i)
      else if i < 0 \<and> - int (length xs) \<le> i then Inr (xs ! nat (int (length xs) + i))
      else Inl IndexError)"

text \<open>\<open>xs[i:j]\<close>: both bounds are clamped, negative bounds count from the end.\<close>

definition py_slice :: "'a list \<Rightarrow> int \<Rightarrow> int \<Rightarrow> 'a list" where
  "py_slice xs i j =
     (let n = int (length xs);
          lo = (if i < 0 then max 0 (n + i) else min i n);
          hi = (if j < 0 then max 0 (n + j) else min j n)
      in take (nat (hi - lo)) (drop (nat lo) xs))"

text \<open>\<open>sep.join(parts)\<close>.\<close>

fun py_join :: "string \<Rightarrow> string list \<Rightarrow> string" where
  "py_join sep [] = []"
| "py_join sep [x] = x"
| "py_join sep (x # y # ys) = x @ sep @ py_join sep (y # ys)"

text \<open>\<open>str(n)\<close> and \<open>"%s" % n\<close> for an int: its decimal digits, with a sign.\<close>

fun digits :: "nat \<Rightarrow> string" where
  "digits n =
     (if n < 10 then [''0123456789'' ! n]
      else digits (n div 10) @ [''0123456789'' ! (n mod 10)])"

definition py_str_int :: "int \<Rightarrow> string" where
  "py_str_int i = (if i < 0 then CHR ''-'' # digits (nat (- i)) else digits (nat i))"

section \<open>Tokens, configurations, features\<close>

text \<open>\<open>Token\<close> (snips_nlu.preprocessing): a value and its character offsets.\<close>

record token =
  tok_value :: string
  tok_start :: int
  tok_end :: int

text \<open>
  The factory configuration, a dict with the keys \<open>factory_name\<close>, \<open>args\<close>,
  \<open>offsets\<close> and optionally \<open>drop_out\<close>. A factory stores the dict it is given
  (\<open>self.factory_config = factory_config\<close>, no copy), so the configuration held by a
  factory of the model is the caller's object: what a factory writes into it is what the
  caller reads afterwards.
\<close>

record FactoryConfig =
  cfg_factory_name :: string
  cfg_args :: "string \<rightharpoonup> pyval"
  cfg_offsets :: "int list"
  cfg_drop_out :: "real option"

text \<open>
  Modelled from the spec: \<open>Feature\<close> (snips_nlu.slot_filler.feature is not among the
  sources): a base name, the function computing the value at a token index, an offset
  and a drop-out rate.
\<close>

record feature =
  base_name :: string
  func :: "token list \<Rightarrow> int \<Rightarrow> error + string option"
  offset :: int
  ft_drop_out :: real

text \<open>
  A training dataset. This module reads its language (\<open>dataset[LANGUAGE]\<close>) and hands
  the dataset to a collaborator; \<open>ds_entities\<close> stands for the rest of its content (the
  entities it declares).
\<close>

record dataset =
  ds_language :: string
  ds_entities :: "string list"

text \<open>
  An entity found by a parser: the character range of the match
  (\<open>ent[RES_MATCH_RANGE][START]\<close>, \<open>ent[RES_MATCH_RANGE][END]\<close>) and its label.
\<close>

record entity =
  range_start :: int
  range_end :: int
  entity_kind :: string

text \<open>
  The two parsers are collaborators, given to \<open>build_features\<close>:
  \<open>parse(text, scope, use_cache)\<close> returns the matches in the parser's order, and the
  custom parser has the set of the labels it knows (\<open>entities\<close>). A Python set is a
  \<open>dlist\<close>: its elements, each once, in the order an iteration visits them.
\<close>

record custom_entity_parser =
  cp_entities :: "string dlist"
  cp_parse :: "string \<Rightarrow> string list \<Rightarrow> bool \<Rightarrow> entity list"

record builtin_entity_parser =
  bp_parse :: "string \<Rightarrow> string list \<Rightarrow> bool \<Rightarrow> entity list"

text \<open>
  \<open>TaggingScheme\<close> (snips_nlu.slot_filler.crf_utils) is an enumeration built from its
  integer code; a member is represented by its code.
\<close>

datatype tagging_scheme = TaggingScheme int

text \<open>
  The functions this module imports and calls are parameters of the model, collected in
  one record: the text preprocessing (\<open>stem_token\<close>, \<open>normalize_token\<close>,
  \<open>get_shape\<close>, \<open>get_default_sep\<close>, Python's \<open>str.isdigit\<close>), the resources
  (\<open>get_gazetteer\<close>, \<open>get_word_clusters\<close>), the helpers
  \<open>get_word_chunk\<close>, \<open>initial_string_from_tokens\<close> and \<open>get_scheme_prefix\<close>, and the
  set of codes \<open>TaggingScheme\<close> accepts. A language argument is \<open>None\<close> while the
  factory is not bound to a language. For the entity scopes the record holds what the
  builtin-entity ontology and the dataset know: the set of builtin entity kinds a
  language supports, which of the kinds are gazetteer-backed (the others are
  grammar-defined), and the set of entity names a dataset declares (for one intent when
  an intent is given).
\<close>

record env =
  stem_token :: "token \<Rightarrow> string option \<Rightarrow> string"
  normalize_token :: "token \<Rightarrow> string"
  get_shape :: "string \<Rightarrow> string"
  get_default_sep :: "string option \<Rightarrow> string"
  str_isdigit :: "string \<Rightarrow> bool"
  get_gazetteer :: "string \<Rightarrow> string \<Rightarrow> string set"
  get_word_clusters :: "string option \<Rightarrow> string \<rightharpoonup> (string \<rightharpoonup> string)"
  supported_builtin_entities :: "string \<Rightarrow> string dlist"
  is_gazetteer_entity :: "string \<Rightarrow> bool"
  dataset_entities :: "dataset \<Rightarrow> string option \<Rightarrow> string dlist"
  get_word_chunk :: "string \<Rightarrow> int \<Rightarrow> int \<Rightarrow> bool \<Rightarrow> error + string option"
  initial_string_from_tokens :: "token list \<Rightarrow> string"
  get_scheme_prefix :: "int \<Rightarrow> int list \<Rightarrow> tagging_scheme \<Rightarrow> error + string"
  is_tagging_scheme_code :: "int \<Rightarrow> bool"

text \<open>
  Modelled from the spec: \<open>get_supported_grammar_entities\<close> (package
  snips_nlu_ontology) and \<open>get_dataset_gazetteer_entities\<close> (snips_nlu.dataset), neither
  among the sources. The first returns the set of the grammar-defined entity kinds the
  language supports, the second the set of the gazetteer-backed entity kinds the dataset
  declares for the intent. Both are given here as the list \<open>list(...)\<close> makes of the set.
\<close>

definition get_supported_grammar_entities :: "env \<Rightarrow> string \<Rightarrow> string list" where
  "get_supported_grammar_entities env language =
     filter (\<lambda>label. \<not> is_gazetteer_entity env label)
       (list_of_dlist (supported_builtin_entities env language))"

definition get_dataset_gazetteer_entities :: "env \<Rightarrow> dataset \<Rightarrow> string option \<Rightarrow> string list" where
  "get_dataset_gazetteer_entities env dataset intent =
     filter (is_gazetteer_entity env) (list_of_dlist (dataset_entities env dataset intent))"

text \<open>
  Modelled from the spec: \<open>entity_filter\<close> (snips_nlu.slot_filler.features_utils is not
  among the sources). The span \<open>start..end\<close> falls fully inside the character range of
  the match: it is not empty, starts at or after the start of the range and ends at or
  before its end.
\<close>

definition entity_filter :: "entity \<Rightarrow> int \<Rightarrow> int \<Rightarrow> bool" where
  "entity_filter ent start end_pos =
     (range_start ent \<le> start \<and> start < end_pos \<and> end_pos \<le> range_end ent)"

section \<open>Reading the configuration\<close>

text \<open>\<open>self.args[key]\<close>: a missing key raises KeyError.\<close>

definition get_arg :: "FactoryConfig \<Rightarrow> string \<Rightarrow> error + pyval" where
  "get_arg cfg key = (case cfg_args cfg key of None \<Rightarrow> Inl (KeyError key) | Some v \<Rightarrow> Inr v)"

text \<open>
  The arguments are read at the types the docstrings give them; a value of another type
  is reported as TypeError.
\<close>

definition as_int :: "pyval \<Rightarrow> error + int" where
  "as_int v = (case v of PyInt n \<Rightarrow> Inr n | _ \<Rightarrow> Inl TypeError)"

definition as_bool :: "pyval \<Rightarrow> error + bool" where
  "as_bool v = (case v of PyBool b \<Rightarrow> Inr b | _ \<Rightarrow> Inl TypeError)"

definition as_str :: "pyval \<Rightarrow> error + string" where
  "as_str v = (case v of PyStr s \<Rightarrow> Inr s | _ \<Rightarrow> Inl TypeError)"

definition as_opt_str :: "pyval \<Rightarrow> error + string option" where
  "as_opt_str v = (case v of PyNone \<Rightarrow> Inr None | PyStr s \<Rightarrow> Inr (Some s) | _ \<Rightarrow> Inl TypeError)"

definition as_opt_labels :: "pyval \<Rightarrow> error + string list option" where
  "as_opt_labels v =
     (case v of PyNone \<Rightarrow> Inr None | PyStrList xs \<Rightarrow> Inr (Some xs) | _ \<Rightarrow> Inl TypeError)"

text \<open>\<open>self.args.get(key)\<close>: a missing key gives \<open>None\<close>.\<close>

definition args_get :: "FactoryConfig \<Rightarrow> string \<Rightarrow> pyval" where
  "args_get cfg key = (case cfg_args cfg key of None \<Rightarrow> PyNone | Some v \<Rightarrow> v)"

text \<open>\<open>self.args[key] = v\<close>: the write goes to the \<open>args\<close> dict of the configuration.\<close>

definition set_arg :: "FactoryConfig \<Rightarrow> string \<Rightarrow> pyval \<Rightarrow> FactoryConfig" where
  "set_arg cfg key v = cfg\<lparr>cfg_args := (cfg_args cfg)(key \<mapsto> v)\<rparr>"

text \<open>\<open>self.factory_config.get("drop_out", 0.0)\<close>.\<close>

definition config_drop_out :: "FactoryConfig \<Rightarrow> real" where
  "config_drop_out cfg = (case cfg_drop_out cfg of None \<Rightarrow> 0 | Some d \<Rightarrow> d)"

text \<open>\<open>TaggingScheme(code)\<close>: a code that names no member raises ValueError.\<close>

definition make_tagging_scheme :: "env \<Rightarrow> int \<Rightarrow> error + tagging_scheme" where
  "make_tagging_scheme env code =
     (if is_tagging_scheme_code env code then Inr (TaggingScheme code)
      else Inl (ValueError ''not a valid TaggingScheme''))"

section \<open>The factories\<close>

text \<open>
  The state of the five classes with an \<open>__init__\<close> of their own. \<open>_language\<close> and the
  resources start as \<open>None\<close>.
\<close>

record ngram_state =
  ng_config :: FactoryConfig
  ng_n :: int
  ng_use_stemming :: bool
  ng_common_words_gazetteer_name :: "string option"
  ng_gazetteer :: "string set option"
  ng_language :: "string option"

record shape_ngram_state =
  sh_config :: FactoryConfig
  sh_n :: int
  sh_language :: "string option"

record word_cluster_state =
  wc_config :: FactoryConfig
  wc_cluster_name :: string
  wc_cluster :: "(string \<rightharpoonup> string) option"
  wc_language :: "string option"
  wc_use_stemming :: bool

record entity_match_state =
  em_config :: FactoryConfig
  em_use_stemming :: bool
  em_tagging_scheme :: tagging_scheme
  em_language :: "string option"

record builtin_entity_match_state =
  be_config :: FactoryConfig
  be_tagging_scheme :: tagging_scheme
  be_builtin_entities :: "string list option"
  be_language :: "string option"

datatype factory =
    IsDigitFactory FactoryConfig
  | IsFirstFactory FactoryConfig
  | IsLastFactory FactoryConfig
  | PrefixFactory FactoryConfig
  | SuffixFactory FactoryConfig
  | LengthFactory FactoryConfig
  | NgramFactory ngram_state
  | ShapeNgramFactory shape_ngram_state
  | WordClusterFactory word_cluster_state
  | EntityMatchFactory entity_match_state
  | BuiltinEntityMatchFactory builtin_entity_match_state

fun factory_config :: "factory \<Rightarrow> FactoryConfig" where
  "factory_config (IsDigitFactory cfg) = cfg"
| "factory_config (IsFirstFactory cfg) = cfg"
| "factory_config (IsLastFactory cfg) = cfg"
| "factory_config (PrefixFactory cfg) = cfg"
| "factory_config (SuffixFactory cfg) = cfg"
| "factory_config (LengthFactory cfg) = cfg"
| "factory_config (NgramFactory s) = ng_config s"
| "factory_config (ShapeNgramFactory s) = sh_config s"
| "factory_config (WordClusterFactory s) = wc_config s"
| "factory_config (EntityMatchFactory s) = em_config s"
| "factory_config (BuiltinEntityMatchFactory s) = be_config s"

text \<open>The read-only properties of \<open>CRFFeatureFactory\<close>.\<close>

definition factory_name :: "factory \<Rightarrow> string" where
  "factory_name f = cfg_factory_name (factory_config f)"

definition offsets :: "factory \<Rightarrow> int list" where
  "offsets f = cfg_offsets (factory_config f)"

definition drop_out :: "factory \<Rightarrow> real" where
  "drop_out f = config_drop_out (factory_config f)"

subsection \<open>Construction and the language setters\<close>

text \<open>
  Each language-dependent class has a property \<open>language\<close> whose setter ignores
  \<open>None\<close> and otherwise stores the value, writes it to \<open>args["language_code"]\<close> and,
  for some classes, loads a resource. \<open>__init__\<close> ends with
  \<open>self.language = self.args.get("language_code")\<close>.
\<close>

definition NgramFactory_set_language :: "env \<Rightarrow> ngram_state \<Rightarrow> string option \<Rightarrow> ngram_state" where
  "NgramFactory_set_language env s v =
     (case v of None \<Rightarrow> s
      | Some l \<Rightarrow>
          (let s1 = s\<lparr>ng_language := Some l\<rparr>;
               s2 = s1\<lparr>ng_config := set_arg (ng_config s1) ''language_code'' (PyStr l)\<rparr>
           in case ng_common_words_gazetteer_name s2 of
                None \<Rightarrow> s2
              | Some gazetteer_name \<Rightarrow>
                  s2\<lparr>ng_gazetteer := Some (get_gazetteer env l gazetteer_name)\<rparr>))"

definition NgramFactory_init :: "env \<Rightarrow> FactoryConfig \<Rightarrow> error + ngram_state" where
  "NgramFactory_init env cfg =
     bind_res (bind_res (get_arg cfg ''n'') as_int) (\<lambda>n.
       if n < 1 then Inl (ValueError ''n should be >= 1'')
       else
         bind_res (bind_res (get_arg cfg ''use_stemming'') as_bool) (\<lambda>use_stemming.
         bind_res (bind_res (get_arg cfg ''common_words_gazetteer_name'') as_opt_str) (\<lambda>gazetteer_name.
         bind_res (as_opt_str (args_get cfg ''language_code'')) (\<lambda>language_code.
           Inr (NgramFactory_set_language env
                  \<lparr>ng_config = cfg, ng_n = n, ng_use_stemming = use_stemming,
                   ng_common_words_gazetteer_name = gazetteer_name,
                   ng_gazetteer = None, ng_language = None\<rparr>
                  language_code)))))"

definition ShapeNgramFactory_set_language :: "shape_ngram_state \<Rightarrow> string option \<Rightarrow> shape_ngram_state" where
  "ShapeNgramFactory_set_language s v =
     (case v of None \<Rightarrow> s
      | Some l \<Rightarrow>
          s\<lparr>sh_language := Some l, sh_config := set_arg (sh_config s) ''language_code'' (PyStr l)\<rparr>)"

definition ShapeNgramFactory_init :: "FactoryConfig \<Rightarrow> error + shape_ngram_state" where
  "ShapeNgramFactory_init cfg =
     bind_res (bind_res (get_arg cfg ''n'') as_int) (\<lambda>n.
       if n < 1 then Inl (ValueError ''n should be >= 1'')
       else
         bind_res (as_opt_str (args_get cfg ''language_code'')) (\<lambda>language_code.
           Inr (ShapeNgramFactory_set_language
                  \<lparr>sh_config = cfg, sh_n = n, sh_language = None\<rparr> language_code)))"

text \<open>
  The word-cluster setter looks the cluster table up
  (\<open>get_word_clusters(self.language)[self.cluster_name]\<close>, KeyError when the language
  has no such cluster) before it writes to \<open>args\<close>.
\<close>

definition WordClusterFactory_set_language ::
  "env \<Rightarrow> word_cluster_state \<Rightarrow> string option \<Rightarrow> error + word_cluster_state" where
  "WordClusterFactory_set_language env s v =
     (case v of None \<Rightarrow> Inr s
      | Some l \<Rightarrow>
          (let s1 = s\<lparr>wc_language := Some l\<rparr>
           in case get_word_clusters env (wc_language s1) (wc_cluster_name s1) of
                None \<Rightarrow> Inl (KeyError (wc_cluster_name s1))
              | Some cluster \<Rightarrow>
                  Inr (s1\<lparr>wc_cluster := Some cluster,
                           wc_config := set_arg (wc_config s1) ''language_code'' (PyStr l)\<rparr>)))"

text \<open>
  \<open>WordClusterFactory.__init__\<close> assigns \<open>use_stemming\<close> last, after the language; the
  value the record holds for it until then is never read.
\<close>

definition WordClusterFactory_init :: "env \<Rightarrow> FactoryConfig \<Rightarrow> error + word_cluster_state" where
  "WordClusterFactory_init env cfg =
     bind_res (bind_res (get_arg cfg ''cluster_name'') as_str) (\<lambda>cluster_name.
     bind_res (as_opt_str (args_get cfg ''language_code'')) (\<lambda>language_code.
     bind_res (WordClusterFactory_set_language env
                 \<lparr>wc_config = cfg, wc_cluster_name = cluster_name, wc_cluster = None,
                  wc_language = None, wc_use_stemming = False\<rparr> language_code) (\<lambda>s.
     bind_res (bind_res (get_arg (wc_config s) ''use_stemming'') as_bool) (\<lambda>use_stemming.
       Inr (s\<lparr>wc_use_stemming := use_stemming\<rparr>)))))"

definition EntityMatchFactory_set_language ::
  "entity_match_state \<Rightarrow> string option \<Rightarrow> entity_match_state" where
  "EntityMatchFactory_set_language s v =
     (case v of None \<Rightarrow> s
      | Some l \<Rightarrow>
          s\<lparr>em_language := Some l, em_config := set_arg (em_config s) ''language_code'' (PyStr l)\<rparr>)"

definition EntityMatchFactory_init :: "env \<Rightarrow> FactoryConfig \<Rightarrow> error + entity_match_state" where
  "EntityMatchFactory_init env cfg =
     bind_res (bind_res (get_arg cfg ''use_stemming'') as_bool) (\<lambda>use_stemming.
     bind_res (bind_res (get_arg cfg ''tagging_scheme_code'') as_int) (\<lambda>code.
     bind_res (make_tagging_scheme env code) (\<lambda>scheme.
     bind_res (as_opt_str (args_get cfg ''language_code'')) (\<lambda>language_code.
       Inr (EntityMatchFactory_set_language
              \<lparr>em_config = cfg, em_use_stemming = use_stemming, em_tagging_scheme = scheme,
               em_language = None\<rparr> language_code)))))"

definition BuiltinEntityMatchFactory_set_language ::
  "builtin_entity_match_state \<Rightarrow> string option \<Rightarrow> builtin_entity_match_state" where
  "BuiltinEntityMatchFactory_set_language s v =
     (case v of None \<Rightarrow> s
      | Some l \<Rightarrow>
          s\<lparr>be_language := Some l, be_config := set_arg (be_config s) ''language_code'' (PyStr l)\<rparr>)"

definition BuiltinEntityMatchFactory_init ::
  "env \<Rightarrow> FactoryConfig \<Rightarrow> error + builtin_entity_match_state" where
  "BuiltinEntityMatchFactory_init env cfg =
     bind_res (bind_res (get_arg cfg ''tagging_scheme_code'') as_int) (\<lambda>code.
     bind_res (make_tagging_scheme env code) (\<lambda>scheme.
     bind_res (as_opt_labels (args_get cfg ''entity_labels'')) (\<lambda>entity_labels.
     bind_res (as_opt_str (args_get cfg ''language_code'')) (\<lambda>language_code.
       Inr (BuiltinEntityMatchFactory_set_language
              \<lparr>be_config = cfg, be_tagging_scheme = scheme,
               be_builtin_entities = entity_labels, be_language = None\<rparr> language_code)))))"

subsection \<open>fit\<close>

text \<open>
  \<open>fit\<close> returns the pair of the factory after the call and the value the call returns:
  \<open>Some\<close> of the factory for \<open>return self\<close>, \<open>None\<close> where the method ends without a
  \<open>return\<close>.
\<close>

definition get_builtin_entity_scope :: "env \<Rightarrow> dataset \<Rightarrow> string option \<Rightarrow> string list" where
  "get_builtin_entity_scope env dataset intent =
     (let language = ds_language dataset;
          grammar_entities = get_supported_grammar_entities env language;
          gazetteer_entities = get_dataset_gazetteer_entities env dataset intent
      in grammar_entities @ gazetteer_entities)"

definition BuiltinEntityMatchFactory_fit ::
  "env \<Rightarrow> builtin_entity_match_state \<Rightarrow> dataset \<Rightarrow> string option \<Rightarrow> builtin_entity_match_state" where
  "BuiltinEntityMatchFactory_fit env s dataset intent =
     (let s1 = BuiltinEntityMatchFactory_set_language s (Some (ds_language dataset));
          builtin_entities = get_builtin_entity_scope env dataset intent;
          s2 = s1\<lparr>be_builtin_entities := Some builtin_entities\<rparr>
      in s2\<lparr>be_config := set_arg (be_config s2) ''entity_labels'' (PyStrList builtin_entities)\<rparr>)"

fun fit :: "env \<Rightarrow> factory \<Rightarrow> dataset \<Rightarrow> string option \<Rightarrow> error + (factory \<times> factory option)" where
  "fit env (NgramFactory s) dataset intent =
     Inr (NgramFactory (NgramFactory_set_language env s (Some (ds_language dataset))), None)"
| "fit env (ShapeNgramFactory s) dataset intent =
     Inr (ShapeNgramFactory (ShapeNgramFactory_set_language s (Some (ds_language dataset))), None)"
| "fit env (WordClusterFactory s) dataset intent =
     bind_res (WordClusterFactory_set_language env s (Some (ds_language dataset)))
       (\<lambda>s'. Inr (WordClusterFactory s', None))"
| "fit env (EntityMatchFactory s) dataset intent =
     (let self = EntityMatchFactory (EntityMatchFactory_set_language s (Some (ds_language dataset)))
      in Inr (self, Some self))"
| "fit env (BuiltinEntityMatchFactory s) dataset intent =
     Inr (BuiltinEntityMatchFactory (BuiltinEntityMatchFactory_fit env s dataset intent), None)"
| "fit env self dataset intent = Inr (self, Some self)"

subsection \<open>The single-feature kinds\<close>

definition prefix_size :: "FactoryConfig \<Rightarrow> error + int" where
  "prefix_size cfg = bind_res (get_arg cfg ''prefix_size'') as_int"

definition suffix_size :: "FactoryConfig \<Rightarrow> error + int" where
  "suffix_size cfg = bind_res (get_arg cfg ''suffix_size'') as_int"

text \<open>\<open>feature_name\<close>: the factory name of the configuration unless the class overrides it.\<close>

fun feature_name :: "factory \<Rightarrow> error + string" where
  "feature_name (PrefixFactory cfg) =
     bind_res (prefix_size cfg) (\<lambda>size. Inr (''prefix_'' @ py_str_int size))"
| "feature_name (SuffixFactory cfg) =
     bind_res (suffix_size cfg) (\<lambda>size. Inr (''suffix_'' @ py_str_int size))"
| "feature_name (NgramFactory s) = Inr (''ngram_'' @ py_str_int (ng_n s))"
| "feature_name (ShapeNgramFactory s) = Inr (''shape_ngram_'' @ py_str_int (sh_n s))"
| "feature_name (WordClusterFactory s) = Inr (''word_cluster_'' @ wc_cluster_name s)"
| "feature_name self = Inr (factory_name self)"

definition IsDigitFactory_compute_feature ::
  "env \<Rightarrow> token list \<Rightarrow> int \<Rightarrow> error + string option" where
  "IsDigitFactory_compute_feature env tokens token_index =
     bind_res (py_index tokens token_index) (\<lambda>t.
       Inr (if str_isdigit env (tok_value t) then Some ''1'' else None))"

definition IsFirstFactory_compute_feature :: "token list \<Rightarrow> int \<Rightarrow> error + string option" where
  "IsFirstFactory_compute_feature tokens token_index =
     Inr (if token_index = 0 then Some ''1'' else None)"

definition IsLastFactory_compute_feature :: "token list \<Rightarrow> int \<Rightarrow> error + string option" where
  "IsLastFactory_compute_feature tokens token_index =
     Inr (if token_index = int (length tokens) - 1 then Some ''1'' else None)"

definition PrefixFactory_compute_feature ::
  "env \<Rightarrow> FactoryConfig \<Rightarrow> token list \<Rightarrow> int \<Rightarrow> error + string option" where
  "PrefixFactory_compute_feature env cfg tokens token_index =
     bind_res (py_index tokens token_index) (\<lambda>t.
     bind_res (prefix_size cfg) (\<lambda>size.
       get_word_chunk env (normalize_token env t) size 0 False))"

definition SuffixFactory_compute_feature ::
  "env \<Rightarrow> FactoryConfig \<Rightarrow> token list \<Rightarrow> int \<Rightarrow> error + string option" where
  "SuffixFactory_compute_feature env cfg tokens token_index =
     bind_res (py_index tokens token_index) (\<lambda>t.
     bind_res (suffix_size cfg) (\<lambda>size.
     bind_res (py_index tokens token_index) (\<lambda>t'.
       get_word_chunk env (normalize_token env t) size (int (length (tok_value t'))) True)))"

definition LengthFactory_compute_feature :: "token list \<Rightarrow> int \<Rightarrow> error + string option" where
  "LengthFactory_compute_feature tokens token_index =
     bind_res (py_index tokens token_index) (\<lambda>t.
       Inr (Some (py_str_int (int (length (tok_value t))))))"

definition NgramFactory_compute_feature ::
  "env \<Rightarrow> ngram_state \<Rightarrow> token list \<Rightarrow> int \<Rightarrow> error + string option" where
  "NgramFactory_compute_feature env s tokens token_index =
     (let max_len = int (length tokens);
          end_index = token_index + ng_n s
      in if 0 \<le> token_index \<and> token_index < max_len \<and> end_index \<le> max_len then
           (case ng_gazetteer s of
              None \<Rightarrow>
                if ng_use_stemming s then
                  Inr (Some (py_join (get_default_sep env (ng_language s))
                    (map (\<lambda>t. stem_token env t (ng_language s))
                       (py_slice tokens token_index end_index))))
                else
                  Inr (Some (py_join (get_default_sep env (ng_language s))
                    (map (normalize_token env) (py_slice tokens token_index end_index))))
            | Some gazetteer \<Rightarrow>
                Inr (Some (py_join (get_default_sep env (ng_language s))
                  (map (\<lambda>t.
                      let v = (if ng_use_stemming s then stem_token env t (ng_language s)
                               else normalize_token env t)
                      in if v \<in> gazetteer then v else ''rare_word'')
                    (py_slice tokens token_index end_index)))))
         else Inr None)"

definition ShapeNgramFactory_compute_feature ::
  "env \<Rightarrow> shape_ngram_state \<Rightarrow> token list \<Rightarrow> int \<Rightarrow> error + string option" where
  "ShapeNgramFactory_compute_feature env s tokens token_index =
     (let max_len = int (length tokens);
          end_index = token_index + sh_n s
      in if 0 \<le> token_index \<and> token_index < max_len \<and> end_index \<le> max_len then
           Inr (Some (py_join (get_default_sep env (sh_language s))
             (map (\<lambda>t. get_shape env (tok_value t)) (py_slice tokens token_index end_index))))
         else Inr None)"

definition WordClusterFactory_compute_feature ::
  "env \<Rightarrow> word_cluster_state \<Rightarrow> token list \<Rightarrow> int \<Rightarrow> error + string option" where
  "WordClusterFactory_compute_feature env s tokens token_index =
     bind_res (py_index tokens token_index) (\<lambda>t.
       let v = (if wc_use_stemming s then stem_token env t (wc_language s)
                else normalize_token env t)
       in case get_word_clusters env (wc_language s) (wc_cluster_name s) of
            None \<Rightarrow> Inl (KeyError (wc_cluster_name s))
          | Some cluster \<Rightarrow> Inr (cluster v))"

text \<open>
  \<open>compute_feature\<close> of a single-feature factory. The two entity-match classes are not
  single-feature factories and have no such method.
\<close>

fun compute_feature :: "env \<Rightarrow> factory \<Rightarrow> token list \<Rightarrow> int \<Rightarrow> error + string option" where
  "compute_feature env (IsDigitFactory cfg) = IsDigitFactory_compute_feature env"
| "compute_feature env (IsFirstFactory cfg) = IsFirstFactory_compute_feature"
| "compute_feature env (IsLastFactory cfg) = IsLastFactory_compute_feature"
| "compute_feature env (PrefixFactory cfg) = PrefixFactory_compute_feature env cfg"
| "compute_feature env (SuffixFactory cfg) = SuffixFactory_compute_feature env cfg"
| "compute_feature env (LengthFactory cfg) = LengthFactory_compute_feature"
| "compute_feature env (NgramFactory s) = NgramFactory_compute_feature env s"
| "compute_feature env (ShapeNgramFactory s) = ShapeNgramFactory_compute_feature env s"
| "compute_feature env (WordClusterFactory s) = WordClusterFactory_compute_feature env s"
| "compute_feature env self = (\<lambda>tokens token_index. Inl AttributeError)"

text \<open>\<open>SingleFeatureFactory.build_features\<close>: one feature for each offset, in order.\<close>

definition SingleFeatureFactory_build_features :: "env \<Rightarrow> factory \<Rightarrow> error + feature list" where
  "SingleFeatureFactory_build_features env self =
     traverse (\<lambda>off.
         bind_res (feature_name self) (\<lambda>name.
           Inr \<lparr>base_name = name, func = compute_feature env self, offset = off,
                ft_drop_out = drop_out self\<rparr>))
       (offsets self)"

subsection \<open>The entity-match kinds\<close>

text \<open>
  \<open>EntityMatchFactory._transform\<close>: the token is stemmed or normalized and keeps its
  start; its end becomes the start plus the length of the new value.
\<close>

definition transform :: "env \<Rightarrow> entity_match_state \<Rightarrow> token \<Rightarrow> token" where
  "transform env s t =
     (let transformed_value =
            (if em_use_stemming s then stem_token env t (em_language s)
             else normalize_token env t)
      in \<lparr>tok_value = transformed_value, tok_start = tok_start t,
          tok_end = tok_start t + int (length transformed_value)\<rparr>)"

text \<open>
  The loop both entity-match functions use to collect token indexes:
  \<^verbatim>\<open>for index, token in enumerate(tokens): if <test>: indexes.append(index)\<close>.
\<close>

definition indexes_where :: "(token \<Rightarrow> bool) \<Rightarrow> token list \<Rightarrow> int list" where
  "indexes_where test tokens =
     map (\<lambda>(index, t). int index) (filter (\<lambda>(index, t). test t) (enumerate 0 tokens))"

text \<open>
  The function \<open>_build_entity_match_fn\<close> returns for one entity label. The loop over
  the matches that pass the filter returns in its first iteration; with no such match
  the function ends without a \<open>return\<close>, which is \<open>None\<close>.
\<close>

definition entity_match ::
  "env \<Rightarrow> entity_match_state \<Rightarrow> string \<Rightarrow> custom_entity_parser \<Rightarrow> token list \<Rightarrow> int
     \<Rightarrow> error + string option" where
  "entity_match env s entity_name parser tokens token_index =
     (let transformed_tokens = map (transform env s) tokens;
          txt = initial_string_from_tokens env transformed_tokens
      in bind_res (py_index transformed_tokens token_index) (\<lambda>target.
           let token_start = tok_start target;
               token_end = tok_end target;
               custom_entities = cp_parse parser txt [entity_name] True;
               custom_entities =
                 filter (\<lambda>ent. entity_filter ent token_start token_end) custom_entities
           in case custom_entities of
                [] \<Rightarrow> Inr None
              | ent # rest \<Rightarrow>
                  (let indexes =
                         indexes_where (\<lambda>t. entity_filter ent (tok_start t) (tok_end t))
                           transformed_tokens
                   in bind_res (get_scheme_prefix env token_index indexes (em_tagging_scheme s))
                        (\<lambda>prefix. Inr (Some prefix)))))"

definition EntityMatchFactory_build_features ::
  "env \<Rightarrow> entity_match_state \<Rightarrow> custom_entity_parser \<Rightarrow> error + feature list" where
  "EntityMatchFactory_build_features env s custom_parser =
     Inr (concat (map (\<lambda>entity_name.
            map (\<lambda>off.
                \<lparr>base_name = ''entity_match_'' @ entity_name,
                 func = entity_match env s entity_name custom_parser,
                 offset = off,
                 ft_drop_out = config_drop_out (em_config s)\<rparr>)
              (cfg_offsets (em_config s)))
          (list_of_dlist (cp_entities custom_parser))))"

definition builtin_entity_match ::
  "env \<Rightarrow> builtin_entity_match_state \<Rightarrow> string \<Rightarrow> builtin_entity_parser \<Rightarrow> token list \<Rightarrow> int
     \<Rightarrow> error + string option" where
  "builtin_entity_match env s builtin_entity parser tokens token_index =
     (let txt = initial_string_from_tokens env tokens
      in bind_res (py_index tokens token_index) (\<lambda>target.
           let start = tok_start target;
               end_pos = tok_end target;
               builtin_entities = bp_parse parser txt [builtin_entity] True;
               builtin_entities =
                 filter (\<lambda>ent. entity_filter ent start end_pos) builtin_entities
           in case builtin_entities of
                [] \<Rightarrow> Inr None
              | ent # rest \<Rightarrow>
                  (let entity_start = range_start ent;
                       entity_end = range_end ent;
                       indexes =
                         indexes_where (\<lambda>t.
                             (entity_start \<le> tok_start t \<and> tok_start t < entity_end)
                             \<and> (entity_start < tok_end t \<and> tok_end t \<le> entity_end))
                           tokens
                   in bind_res (get_scheme_prefix env token_index indexes (be_tagging_scheme s))
                        (\<lambda>prefix. Inr (Some prefix)))))"

text \<open>
  \<open>BuiltinEntityMatchFactory.build_features\<close> iterates over \<open>self.builtin_entities\<close>,
  which is \<open>None\<close> until \<open>fit\<close> or the configuration binds it: iterating \<open>None\<close>
  raises TypeError.
\<close>

definition BuiltinEntityMatchFactory_build_features ::
  "env \<Rightarrow> builtin_entity_match_state \<Rightarrow> builtin_entity_parser \<Rightarrow> error + feature list" where
  "BuiltinEntityMatchFactory_build_features env s builtin_parser =
     (case be_builtin_entities s of
        None \<Rightarrow> Inl TypeError
      | Some labels \<Rightarrow>
          Inr (concat (map (\<lambda>builtin_entity.
                 map (\<lambda>off.
                     \<lparr>base_name = ''builtin_entity_match_'' @ builtin_entity,
                      func = builtin_entity_match env s builtin_entity builtin_parser,
                      offset = off,
                      ft_drop_out = config_drop_out (be_config s)\<rparr>)
                   (cfg_offsets (be_config s)))
               labels)))"

fun build_features ::
  "env \<Rightarrow> factory \<Rightarrow> builtin_entity_parser \<Rightarrow> custom_entity_parser \<Rightarrow> error + feature list" where
  "build_features env (EntityMatchFactory s) builtin_parser custom_parser =
     EntityMatchFactory_build_features env s custom_parser"
| "build_features env (BuiltinEntityMatchFactory s) builtin_parser custom_parser =
     BuiltinEntityMatchFactory_build_features env s builtin_parser"
| "build_features env self builtin_parser custom_parser =
     SingleFeatureFactory_build_features env self"

text \<open>
  Modelled from the spec: how a feature is evaluated (the class \<open>Feature\<close> is not among
  the sources). The offset is applied outside the compute function: a shifted index
  \<open>token_index + offset\<close> outside \<open>[0, len(tokens))\<close> yields no value, and otherwise the
  function is called at the shifted index.
\<close>

definition evaluate :: "feature \<Rightarrow> token list \<Rightarrow> int \<Rightarrow> error + string option" where
  "evaluate ft tokens token_index =
     (let shifted = token_index + offset ft
      in if 0 \<le> shifted \<and> shifted < int (length tokens) then func ft tokens shifted
         else Inr None)"

subsection \<open>The registry\<close>

datatype factory_class =
    IsDigit | IsFirst | IsLast | Prefix | Suffix | Length | Ngram | ShapeNgram
  | WordCluster | EntityMatch | BuiltinEntityMatch

text \<open>The class attribute \<open>name\<close>.\<close>

fun class_name :: "factory_class \<Rightarrow> string" where
  "class_name IsDigit = ''is_digit''"
| "class_name IsFirst = ''is_first''"
| "class_name IsLast = ''is_last''"
| "class_name Prefix = ''prefix''"
| "class_name Suffix = ''suffix''"
| "class_name Length = ''length''"
| "class_name Ngram = ''ngram''"
| "class_name ShapeNgram = ''shape_ngram''"
| "class_name WordCluster = ''word_cluster''"
| "class_name EntityMatch = ''entity_match''"
| "class_name BuiltinEntityMatch = ''builtin_entity_match''"

definition FACTORIES :: "factory_class list" where
  "FACTORIES = [IsDigit, IsFirst, IsLast, Prefix, Suffix, Length, Ngram, ShapeNgram,
                WordCluster, EntityMatch, BuiltinEntityMatch]"

text \<open>\<open>factory(factory_config)\<close>: the constructor of the class.\<close>

fun construct :: "env \<Rightarrow> factory_class \<Rightarrow> FactoryConfig \<Rightarrow> error + factory" where
  "construct env IsDigit cfg = Inr (IsDigitFactory cfg)"
| "construct env IsFirst cfg = Inr (IsFirstFactory cfg)"
| "construct env IsLast cfg = Inr (IsLastFactory cfg)"
| "construct env Prefix cfg = Inr (PrefixFactory cfg)"
| "construct env Suffix cfg = Inr (SuffixFactory cfg)"
| "construct env Length cfg = Inr (LengthFactory cfg)"
| "construct env Ngram cfg = bind_res (NgramFactory_init env cfg) (\<lambda>s. Inr (NgramFactory s))"
| "construct env ShapeNgram cfg =
     bind_res (ShapeNgramFactory_init cfg) (\<lambda>s. Inr (ShapeNgramFactory s))"
| "construct env WordCluster cfg =
     bind_res (WordClusterFactory_init env cfg) (\<lambda>s. Inr (WordClusterFactory s))"
| "construct env EntityMatch cfg =
     bind_res (EntityMatchFactory_init env cfg) (\<lambda>s. Inr (EntityMatchFactory s))"
| "construct env BuiltinEntityMatch cfg =
     bind_res (BuiltinEntityMatchFactory_init env cfg) (\<lambda>s. Inr (BuiltinEntityMatchFactory s))"

text \<open>The class of a factory instance.\<close>

fun class_of :: "factory \<Rightarrow> factory_class" where
  "class_of (IsDigitFactory cfg) = IsDigit"
| "class_of (IsFirstFactory cfg) = IsFirst"
| "class_of (IsLastFactory cfg) = IsLast"
| "class_of (PrefixFactory cfg) = Prefix"
| "class_of (SuffixFactory cfg) = Suffix"
| "class_of (LengthFactory cfg) = Length"
| "class_of (NgramFactory s) = Ngram"
| "class_of (ShapeNgramFactory s) = ShapeNgram"
| "class_of (WordClusterFactory s) = WordCluster"
| "class_of (EntityMatchFactory s) = EntityMatch"
| "class_of (BuiltinEntityMatchFactory s) = BuiltinEntityMatch"

text \<open>The loop of \<open>get_feature_factory\<close> over the classes still to try.\<close>

fun get_feature_factory_from ::
  "env \<Rightarrow> factory_class list \<Rightarrow> FactoryConfig \<Rightarrow> error + factory" where
  "get_feature_factory_from env [] cfg =
     Inl (ValueError (''Unknown feature factory: '' @ cfg_factory_name cfg))"
| "get_feature_factory_from env (factory # rest) cfg =
     (if cfg_factory_name cfg = class_name factory then construct env factory cfg
      else get_feature_factory_from env rest cfg)"

definition get_feature_factory :: "env \<Rightarrow> FactoryConfig \<Rightarrow> error + factory" where
  "get_feature_factory env cfg = get_feature_factory_from env FACTORIES cfg"

text \<open>The base name and the offset of each feature of a list, in order.\<close>

definition feature_keys :: "feature list \<Rightarrow> (string \<times> int) list" where
  "feature_keys fts = map (\<lambda>ft. (base_name ft, offset ft)) fts"

text \<open>The two components of the result of \<open>fit\<close>: the factory after the call, and the
  value the call returns.\<close>

definition fit_factory :: "env \<Rightarrow> factory \<Rightarrow> dataset \<Rightarrow> string option \<Rightarrow> error + factory" where
  "fit_factory env self dataset intent = map_sum id fst (fit env self dataset intent)"

definition fit_return_value ::
  "env \<Rightarrow> factory \<Rightarrow> dataset \<Rightarrow> string option \<Rightarrow> error + factory option" where
  "fit_return_value env self dataset intent = map_sum id snd (fit env self dataset intent)"

definition built_feature_keys ::
  "env \<Rightarrow> factory \<Rightarrow> builtin_entity_parser \<Rightarrow> custom_entity_parser \<Rightarrow> error + (string \<times> int) list" where
  "built_feature_keys env self builtin_parser custom_parser =
     map_sum id feature_keys (build_features env self builtin_parser custom_parser)"

text \<open>The property \<open>language\<close> of the five classes that have it.\<close>

fun language :: "factory \<Rightarrow> string option" where
  "language (NgramFactory s) = ng_language s"
| "language (ShapeNgramFactory s) = sh_language s"
| "language (WordClusterFactory s) = wc_language s"
| "language (EntityMatchFactory s) = em_language s"
| "language (BuiltinEntityMatchFactory s) = be_language s"
| "language self = None"

section \<open>Example inputs\<close>

text \<open>
  Concrete collaborators, tokens and parsers on which the theorems below are
  instantiated. The example resolver marks a single matched token \<open>U-\<close>, the first of
  several \<open>B-\<close>, the last \<open>L-\<close> and the others \<open>I-\<close>.
\<close>

definition example_scheme_prefix :: "int \<Rightarrow> int list \<Rightarrow> tagging_scheme \<Rightarrow> error + string" where
  "example_scheme_prefix i indexes scheme =
     (if indexes = [] then Inl IndexError
      else if indexes = [i] then Inr ''U-''
      else if i = hd indexes then Inr ''B-''
      else if i = last indexes then Inr ''L-''
      else Inr ''I-'')"

definition example_env :: env where
  "example_env =
     \<lparr>stem_token = (\<lambda>t language. tok_value t),
      normalize_token = (\<lambda>t. tok_value t),
      get_shape = (\<lambda>v. ''xxx''),
      get_default_sep = (\<lambda>language. '' ''),
      str_isdigit = (\<lambda>v. v \<noteq> [] \<and> list_all (\<lambda>c. c \<in> set ''0123456789'') v),
      get_gazetteer = (\<lambda>language gazetteer_name. {}),
      get_word_clusters = (\<lambda>language. Map.empty),
      supported_builtin_entities = (\<lambda>language. Dlist [''snips/number'', ''snips/musicArtist'']),
      is_gazetteer_entity = (\<lambda>label. label = ''snips/musicArtist''),
      dataset_entities = (\<lambda>d intent. Dlist (ds_entities d)),
      get_word_chunk = (\<lambda>word chunk_size chunk_start reverse. Inr None),
      initial_string_from_tokens = (\<lambda>ts. py_join '' '' (map tok_value ts)),
      get_scheme_prefix = example_scheme_prefix,
      is_tagging_scheme_code = (\<lambda>code. code = 0 \<or> code = 1 \<or> code = 2)\<rparr>"

text \<open>The tokens of "to new york".\<close>

definition example_tokens :: "token list" where
  "example_tokens =
     [\<lparr>tok_value = ''to'', tok_start = 0, tok_end = 2\<rparr>,
      \<lparr>tok_value = ''new'', tok_start = 3, tok_end = 6\<rparr>,
      \<lparr>tok_value = ''york'', tok_start = 7, tok_end = 11\<rparr>]"

text \<open>A custom parser that finds "new york" and then "new" in every text.\<close>

definition example_custom_parser :: custom_entity_parser where
  "example_custom_parser =
     \<lparr>cp_entities = Dlist [''city''],
      cp_parse = (\<lambda>txt scope use_cache.
        [\<lparr>range_start = 3, range_end = 11, entity_kind = ''city''\<rparr>,
         \<lparr>range_start = 3, range_end = 6, entity_kind = ''city''\<rparr>])\<rparr>"

text \<open>
  A builtin parser whose first match starts inside "new" (characters 4 to 11) and whose
  second match is "york".
\<close>

definition example_builtin_parser :: builtin_entity_parser where
  "example_builtin_parser =
     \<lparr>bp_parse = (\<lambda>txt scope use_cache.
        [\<lparr>range_start = 4, range_end = 11, entity_kind = ''snips/number''\<rparr>,
         \<lparr>range_start = 7, range_end = 11, entity_kind = ''snips/number''\<rparr>])\<rparr>"

definition example_config :: "string \<Rightarrow> (string \<rightharpoonup> pyval) \<Rightarrow> int list \<Rightarrow> FactoryConfig" where
  "example_config name arguments offs =
     \<lparr>cfg_factory_name = name, cfg_args = arguments, cfg_offsets = offs, cfg_drop_out = None\<rparr>"

definition example_entity_match_state :: entity_match_state where
  "example_entity_match_state =
     \<lparr>em_config = example_config ''entity_match''
        [''use_stemming'' \<mapsto> PyBool False, ''tagging_scheme_code'' \<mapsto> PyInt 2,
         ''language_code'' \<mapsto> PyStr ''en''] [0],
      em_use_stemming = False, em_tagging_scheme = TaggingScheme 2, em_language = Some ''en''\<rparr>"

definition example_builtin_state :: builtin_entity_match_state where
  "example_builtin_state =
     \<lparr>be_config = example_config ''builtin_entity_match''
        [''tagging_scheme_code'' \<mapsto> PyInt 2, ''language_code'' \<mapsto> PyStr ''en'',
         ''entity_labels'' \<mapsto> PyStrList [''snips/number'']] [0],
      be_tagging_scheme = TaggingScheme 2, be_builtin_entities = Some [''snips/number''],
      be_language = Some ''en''\<rparr>"

definition example_dataset :: dataset where
  "example_dataset = \<lparr>ds_language = ''en'', ds_entities = []\<rparr>"

text \<open>The arguments of a unigram factory without stemming and without gazetteer.\<close>

definition example_ngram_args :: "string \<rightharpoonup> pyval" where
  "example_ngram_args =
     [''n'' \<mapsto> PyInt 1, ''use_stemming'' \<mapsto> PyBool False,
      ''common_words_gazetteer_name'' \<mapsto> PyNone]"

definition example_ngram_state :: ngram_state where
  "example_ngram_state =
     \<lparr>ng_config = example_config ''ngram'' example_ngram_args [0], ng_n = 1,
      ng_use_stemming = False, ng_common_words_gazetteer_name = None, ng_gazetteer = None,
      ng_language = None\<rparr>"

text \<open>The feature a length factory builds for one offset.\<close>

definition example_length_feature :: "int \<Rightarrow> feature" where
  "example_length_feature off =
     \<lparr>base_name = ''length'',
      func = compute_feature example_env (LengthFactory (example_config ''length'' Map.empty [off])),
      offset = off, ft_drop_out = 0\<rparr>"

text \<open>A dataset that declares a custom entity and a gazetteer-backed builtin entity.\<close>

definition example_music_dataset :: dataset where
  "example_music_dataset = \<lparr>ds_language = ''en'', ds_entities = [''city'', ''snips/musicArtist'']\<rparr>"

text \<open>The example n-gram factory after \<open>fit\<close> on the example dataset.\<close>

definition example_fitted_ngram_state :: ngram_state where
  "example_fitted_ngram_state =
     example_ngram_state
       \<lparr>ng_language := Some ''en'',
        ng_config := set_arg (example_config ''ngram'' example_ngram_args [0])
                       ''language_code'' (PyStr ''en'')\<rparr>"

section \<open>Auxiliary facts\<close>

lemma bind_res_Inr [simp]: "bind_res (Inr x) k = k x"
  by (simp add: bind_res_def)

lemma bind_res_Inl [simp]: "bind_res (Inl e) k = Inl e"
  by (simp add: bind_res_def)

lemma bind_res_eq_Inr:
  "bind_res r k = Inr y \<longleftrightarrow> (\<exists>x. r = Inr x \<and> k x = Inr y)"
  by (cases r) simp_all

lemma traverse_total: "(\<And>x. g x = Inr (h x)) \<Longrightarrow> traverse g xs = Inr (map h xs)"
  by (induction xs) simp_all

lemma traverse_constant_name:
  "xs \<noteq> [] \<Longrightarrow> traverse (\<lambda>x. bind_res r (\<lambda>name. Inr (h name x))) xs = Inr ys
     \<Longrightarrow> \<exists>name. r = Inr name \<and> ys = map (h name) xs"
  by (cases r) (auto simp: traverse_total neq_Nil_conv)

lemma enumerate_filter_map:
  "map fst (filter (\<lambda>(index, t). test t) (enumerate n xs)) =
   filter (\<lambda>k. test (xs ! (k - n))) [n..<n + length xs]"
proof (induction xs arbitrary: n)
  case Nil
  then show ?case by simp
next
  case (Cons x xs)
  have a: "filter (\<lambda>k. test ((x # xs) ! (k - n))) [Suc n..<Suc n + length xs] =
        filter (\<lambda>k. test (xs ! (k - Suc n))) [Suc n..<Suc n + length xs]"
  proof (rule filter_cong [OF refl])
    fix k assume "k \<in> set [Suc n..<Suc n + length xs]"
    then have "n < k" by auto
    then show "test ((x # xs) ! (k - n)) = test (xs ! (k - Suc n))"
      by (simp add: nth_Cons')
  qed
  have b: "[n..<n + length (x # xs)] = n # [Suc n..<Suc n + length xs]"
    using upt_rec [of n "n + length (x # xs)"] by simp
  show ?case
    unfolding b using Cons.IH [of "Suc n"] a by simp
qed

text \<open>The index loop collects, in increasing order, the positions whose token passes the test.\<close>

lemma indexes_where_upt:
  "indexes_where test xs = map int (filter (\<lambda>k. test (xs ! k)) [0..<length xs])"
proof -
  have "indexes_where test xs =
        map int (map fst (filter (\<lambda>(index, t). test t) (enumerate 0 xs)))"
    by (simp add: indexes_where_def case_prod_unfold comp_def)
  then show ?thesis using enumerate_filter_map [of test 0 xs] by simp
qed

lemma filter_first:
  "(\<forall>e \<in> set pre. \<not> P e) \<Longrightarrow> P ent \<Longrightarrow> filter P (pre @ ent # post) = ent # filter P post"
  by (induction pre) auto

lemma filter_none: "(\<forall>e \<in> set xs. \<not> P e) \<Longrightarrow> filter P xs = []"
  by (induction xs) auto

lemma entity_match_first:
  assumes "py_index (map (transform env s) tokens) token_index = Inr target"
    and "cp_parse parser (initial_string_from_tokens env (map (transform env s) tokens))
           [entity_name] True = pre @ ent # post"
    and "\<forall>e \<in> set pre. \<not> entity_filter e (tok_start target) (tok_end target)"
    and "entity_filter ent (tok_start target) (tok_end target)"
  shows "entity_match env s entity_name parser tokens token_index =
         bind_res (get_scheme_prefix env token_index
             (indexes_where (\<lambda>t. entity_filter ent (tok_start t) (tok_end t))
                (map (transform env s) tokens))
             (em_tagging_scheme s))
           (\<lambda>prefix. Inr (Some prefix))"
  using assms by (simp add: entity_match_def Let_def filter_first)

lemma entity_match_none:
  assumes "py_index (map (transform env s) tokens) token_index = Inr target"
    and "\<forall>e \<in> set (cp_parse parser (initial_string_from_tokens env (map (transform env s) tokens))
           [entity_name] True). \<not> entity_filter e (tok_start target) (tok_end target)"
  shows "entity_match env s entity_name parser tokens token_index = Inr None"
  using assms by (simp add: entity_match_def Let_def filter_none)

lemma builtin_entity_match_first:
  assumes "py_index tokens token_index = Inr target"
    and "bp_parse parser (initial_string_from_tokens env tokens) [builtin_entity] True
           = pre @ ent # post"
    and "\<forall>e \<in> set pre. \<not> entity_filter e (tok_start target) (tok_end target)"
    and "entity_filter ent (tok_start target) (tok_end target)"
  shows "builtin_entity_match env s builtin_entity parser tokens token_index =
         bind_res (get_scheme_prefix env token_index
             (indexes_where (\<lambda>t. (range_start ent \<le> tok_start t \<and> tok_start t < range_end ent)
                                \<and> (range_start ent < tok_end t \<and> tok_end t \<le> range_end ent))
                tokens)
             (be_tagging_scheme s))
           (\<lambda>prefix. Inr (Some prefix))"
  using assms by (simp add: builtin_entity_match_def Let_def filter_first)

lemma builtin_entity_match_none:
  assumes "py_index tokens token_index = Inr target"
    and "\<forall>e \<in> set (bp_parse parser (initial_string_from_tokens env tokens) [builtin_entity] True).
            \<not> entity_filter e (tok_start target) (tok_end target)"
  shows "builtin_entity_match env s builtin_entity parser tokens token_index = Inr None"
  using assms by (simp add: builtin_entity_match_def Let_def filter_none)

lemma builtin_entity_match_value:
  assumes "builtin_entity_match env s builtin_entity parser tokens token_index = Inr (Some v)"
  shows "\<exists>target ent. py_index tokens token_index = Inr target
           \<and> ent \<in> set (bp_parse parser (initial_string_from_tokens env tokens) [builtin_entity] True)
           \<and> entity_filter ent (tok_start target) (tok_end target)"
proof -
  obtain target where t: "py_index tokens token_index = Inr target"
    using assms by (cases "py_index tokens token_index") (simp_all add: builtin_entity_match_def Let_def)
  let ?es = "bp_parse parser (initial_string_from_tokens env tokens) [builtin_entity] True"
  have "\<not> (\<forall>e \<in> set ?es. \<not> entity_filter e (tok_start target) (tok_end target))"
    using builtin_entity_match_none [OF t, of parser env builtin_entity s] assms by auto
  with t show ?thesis by blast
qed

lemma construct_class_of: "construct env cls cfg = Inr f \<Longrightarrow> class_of f = cls"
  by (cases cls) (auto simp: bind_res_eq_Inr)

lemma class_name_inj: "class_name a = class_name b \<Longrightarrow> a = b"
  by (cases a; cases b; simp)

lemma get_feature_factory_from_unknown:
  "cfg_factory_name cfg \<notin> class_name ` set cs \<Longrightarrow>
   get_feature_factory_from env cs cfg =
     Inl (ValueError (''Unknown feature factory: '' @ cfg_factory_name cfg))"
  by (induction cs) auto

lemma get_feature_factory_from_known:
  "cls \<in> set cs \<Longrightarrow> cfg_factory_name cfg = class_name cls \<Longrightarrow>
   get_feature_factory_from env cs cfg = construct env cls cfg"
  by (induction cs) (auto dest: class_name_inj)

lemma all_classes: "cls \<in> set FACTORIES"
  by (cases cls) (simp_all add: FACTORIES_def)

lemma traverse_named:
  "traverse (\<lambda>x. bind_res r (\<lambda>name. Inr (h name x))) xs = Inr ys
     \<Longrightarrow> (\<exists>name. r = Inr name \<and> ys = map (h name) xs) \<or> (xs = [] \<and> ys = [])"
proof (cases r)
  case (Inl e)
  then show "traverse (\<lambda>x. bind_res r (\<lambda>name. Inr (h name x))) xs = Inr ys
     \<Longrightarrow> (\<exists>name. r = Inr name \<and> ys = map (h name) xs) \<or> (xs = [] \<and> ys = [])"
    by (cases xs) simp_all
next
  case (Inr name)
  then have "traverse (\<lambda>x. bind_res r (\<lambda>name. Inr (h name x))) xs = Inr (map (h name) xs)"
    by (intro traverse_total) simp
  then show "traverse (\<lambda>x. bind_res r (\<lambda>name. Inr (h name x))) xs = Inr ys
     \<Longrightarrow> (\<exists>name. r = Inr name \<and> ys = map (h name) xs) \<or> (xs = [] \<and> ys = [])"
    using Inr by simp
qed

text \<open>The features of a single-feature factory: one per offset, all with the same name
  and the factory's compute function.\<close>

lemma single_features:
  assumes "SingleFeatureFactory_build_features env self = Inr fts"
  shows "\<exists>name. fts = map (\<lambda>off. \<lparr>base_name = name, func = compute_feature env self,
                     offset = off, ft_drop_out = drop_out self\<rparr>) (offsets self)"
  using traverse_named [of "feature_name self"
      "\<lambda>name off. \<lparr>base_name = name, func = compute_feature env self, offset = off,
                   ft_drop_out = drop_out self\<rparr>" "offsets self" fts] assms
  unfolding SingleFeatureFactory_build_features_def by auto

lemma py_index_out_of_range:
  "int (length xs) \<le> i \<or> i < - int (length xs) \<Longrightarrow> py_index xs i = Inl IndexError"
  by (auto simp: py_index_def)

lemma py_index_in_range:
  "0 \<le> i \<Longrightarrow> i < int (length xs) \<Longrightarrow> py_index xs i = Inr (xs ! nat i)"
  by (simp add: py_index_def)

lemma py_slice_single:
  "0 \<le> i \<Longrightarrow> i < int (length xs) \<Longrightarrow> py_slice xs i (i + 1) = [xs ! nat i]"
proof -
  assume a: "0 \<le> i" "i < int (length xs)"
  then have "min (i + 1) (int (length xs)) - min i (int (length xs)) = 1" by simp
  then have "py_slice xs i (i + 1) = take 1 (drop (nat i) xs)"
    using a by (simp add: py_slice_def Let_def)
  also have "\<dots> = [xs ! nat i]"
  proof -
    from a have "nat i < length xs" by simp
    then have "drop (nat i) xs = xs ! nat i # drop (Suc (nat i)) xs"
      by (rule Cons_nth_drop_Suc [symmetric])
    then show ?thesis by simp
  qed
  finally show ?thesis .
qed

lemma NgramFactory_compute_feature_outside:
  "\<not> (0 \<le> i \<and> i < int (length tokens) \<and> i + ng_n s \<le> int (length tokens))
     \<Longrightarrow> NgramFactory_compute_feature env s tokens i = Inr None"
  by (auto simp: NgramFactory_compute_feature_def Let_def)

lemma NgramFactory_compute_feature_no_failure:
  "NgramFactory_compute_feature env s tokens i \<noteq> Inl e"
  by (simp add: NgramFactory_compute_feature_def Let_def split: option.splits)

lemma ShapeNgramFactory_compute_feature_outside:
  "\<not> (0 \<le> i \<and> i < int (length tokens) \<and> i + sh_n s \<le> int (length tokens))
     \<Longrightarrow> ShapeNgramFactory_compute_feature env s tokens i = Inr None"
  by (auto simp: ShapeNgramFactory_compute_feature_def Let_def)

lemma ShapeNgramFactory_compute_feature_no_failure:
  "ShapeNgramFactory_compute_feature env s tokens i \<noteq> Inl e"
  by (simp add: ShapeNgramFactory_compute_feature_def Let_def)

text \<open>The function of every feature \<open>build_features\<close> returns.\<close>

lemma built_feature_func:
  assumes "build_features env self bp cp = Inr fts" and "ft \<in> set fts"
  shows "(case self of
            EntityMatchFactory s \<Rightarrow> \<exists>name. func ft = entity_match env s name cp
          | BuiltinEntityMatchFactory s \<Rightarrow> \<exists>name. func ft = builtin_entity_match env s name bp
          | _ \<Rightarrow> func ft = compute_feature env self)"
proof (cases self)
  case (EntityMatchFactory s)
  with assms show ?thesis
    by (fastforce simp: EntityMatchFactory_build_features_def)
next
  case (BuiltinEntityMatchFactory s)
  with assms show ?thesis
    by (fastforce simp: BuiltinEntityMatchFactory_build_features_def split: option.splits)
qed (use assms in \<open>auto dest!: single_features\<close>)

lemma direct_index_failure:
  assumes "int (length tokens) \<le> i \<or> i < - int (length tokens)"
  shows "IsDigitFactory_compute_feature env tokens i = Inl IndexError"
    and "PrefixFactory_compute_feature env cfg tokens i = Inl IndexError"
    and "SuffixFactory_compute_feature env cfg tokens i = Inl IndexError"
    and "LengthFactory_compute_feature tokens i = Inl IndexError"
    and "WordClusterFactory_compute_feature env ws tokens i = Inl IndexError"
    and "entity_match env es name cp tokens i = Inl IndexError"
    and "builtin_entity_match env bs name bp tokens i = Inl IndexError"
  using assms
  by (simp_all add: IsDigitFactory_compute_feature_def PrefixFactory_compute_feature_def
      SuffixFactory_compute_feature_def LengthFactory_compute_feature_def
      WordClusterFactory_compute_feature_def entity_match_def builtin_entity_match_def
      py_index_out_of_range Let_def)

lemma bind_res_InrE:
  assumes "bind_res r k = Inr y"
  obtains x where "r = Inr x" and "k x = Inr y"
  using assms by (cases r) simp_all

lemma set_arg_simps [simp]:
  "cfg_factory_name (set_arg cfg key v) = cfg_factory_name cfg"
  "cfg_offsets (set_arg cfg key v) = cfg_offsets cfg"
  "cfg_drop_out (set_arg cfg key v) = cfg_drop_out cfg"
  "cfg_args (set_arg cfg key v) = (cfg_args cfg)(key \<mapsto> v)"
  by (simp_all add: set_arg_def)

lemma set_arg_twice [simp]: "set_arg (set_arg cfg key v) key w = set_arg cfg key w"
  by (simp add: set_arg_def)

lemma set_arg_swap_twice [simp]:
  "key \<noteq> key' \<Longrightarrow>
   set_arg (set_arg (set_arg cfg key v) key' w) key v' = set_arg (set_arg cfg key v') key' w"
  by (simp add: set_arg_def fun_upd_twist)

lemma get_arg_set_arg_other [simp]:
  "key' \<noteq> key \<Longrightarrow> get_arg (set_arg cfg key v) key' = get_arg cfg key'"
  by (simp add: get_arg_def)

lemma args_get_set_arg [simp]:
  "args_get (set_arg cfg key v) key' = (if key' = key then v else args_get cfg key')"
  by (simp add: args_get_def)

lemma as_opt_str_PyStr [simp]: "as_opt_str (PyStr l) = Inr (Some l)"
  by (simp add: as_opt_str_def)

lemma as_opt_labels_PyStrList [simp]: "as_opt_labels (PyStrList xs) = Inr (Some xs)"
  by (simp add: as_opt_labels_def)

text \<open>What a successful \<open>__init__\<close> has read, and the state it leaves.\<close>

lemma NgramFactory_initE:
  assumes "NgramFactory_init env cfg = Inr s"
  obtains n use_stemming gazetteer_name language_code where
    "bind_res (get_arg cfg ''n'') as_int = Inr n" and "\<not> n < 1"
    and "bind_res (get_arg cfg ''use_stemming'') as_bool = Inr use_stemming"
    and "bind_res (get_arg cfg ''common_words_gazetteer_name'') as_opt_str = Inr gazetteer_name"
    and "as_opt_str (args_get cfg ''language_code'') = Inr language_code"
    and "s = NgramFactory_set_language env
               \<lparr>ng_config = cfg, ng_n = n, ng_use_stemming = use_stemming,
                ng_common_words_gazetteer_name = gazetteer_name,
                ng_gazetteer = None, ng_language = None\<rparr> language_code"
proof -
  from assms obtain n where n: "bind_res (get_arg cfg ''n'') as_int = Inr n"
    and r1: "(if n < 1 then Inl (ValueError ''n should be >= 1'')
       else
         bind_res (bind_res (get_arg cfg ''use_stemming'') as_bool) (\<lambda>use_stemming.
         bind_res (bind_res (get_arg cfg ''common_words_gazetteer_name'') as_opt_str) (\<lambda>gazetteer_name.
         bind_res (as_opt_str (args_get cfg ''language_code'')) (\<lambda>language_code.
           Inr (NgramFactory_set_language env
                  \<lparr>ng_config = cfg, ng_n = n, ng_use_stemming = use_stemming,
                   ng_common_words_gazetteer_name = gazetteer_name,
                   ng_gazetteer = None, ng_language = None\<rparr>
                  language_code))))) = Inr s"
    unfolding NgramFactory_init_def by (rule bind_res_InrE)
  from r1 have n1: "\<not> n < 1" by (auto split: if_splits)
  with r1 obtain us where us: "bind_res (get_arg cfg ''use_stemming'') as_bool = Inr us"
    and r2: "bind_res (bind_res (get_arg cfg ''common_words_gazetteer_name'') as_opt_str) (\<lambda>gazetteer_name.
         bind_res (as_opt_str (args_get cfg ''language_code'')) (\<lambda>language_code.
           Inr (NgramFactory_set_language env
                  \<lparr>ng_config = cfg, ng_n = n, ng_use_stemming = us,
                   ng_common_words_gazetteer_name = gazetteer_name,
                   ng_gazetteer = None, ng_language = None\<rparr>
                  language_code))) = Inr s"
    by (auto elim: bind_res_InrE)
  from r2 obtain gn where gn: "bind_res (get_arg cfg ''common_words_gazetteer_name'') as_opt_str = Inr gn"
    and r3: "bind_res (as_opt_str (args_get cfg ''language_code'')) (\<lambda>language_code.
           Inr (NgramFactory_set_language env
                  \<lparr>ng_config = cfg, ng_n = n, ng_use_stemming = us,
                   ng_common_words_gazetteer_name = gn,
                   ng_gazetteer = None, ng_language = None\<rparr>
                  language_code)) = Inr s"
    by (rule bind_res_InrE)
  from r3 obtain lc where lc: "as_opt_str (args_get cfg ''language_code'') = Inr lc"
    and s: "Inr (NgramFactory_set_language env
                  \<lparr>ng_config = cfg, ng_n = n, ng_use_stemming = us,
                   ng_common_words_gazetteer_name = gn,
                   ng_gazetteer = None, ng_language = None\<rparr> lc) = (Inr s :: error + ngram_state)"
    by (rule bind_res_InrE)
  from s have "s = NgramFactory_set_language env
                  \<lparr>ng_config = cfg, ng_n = n, ng_use_stemming = us,
                   ng_common_words_gazetteer_name = gn,
                   ng_gazetteer = None, ng_language = None\<rparr> lc" by simp
  with n n1 us gn lc show thesis by (rule that)
qed

lemma NgramFactory_rebuild:
  assumes "NgramFactory_init env cfg = Inr s"
  shows "NgramFactory_init env (ng_config (NgramFactory_set_language env s (Some l)))
         = Inr (NgramFactory_set_language env s (Some l))"
proof -
  from assms obtain n us gn lc where
    r: "bind_res (get_arg cfg ''n'') as_int = Inr n" "\<not> n < 1"
      "bind_res (get_arg cfg ''use_stemming'') as_bool = Inr us"
      "bind_res (get_arg cfg ''common_words_gazetteer_name'') as_opt_str = Inr gn"
    and s: "s = NgramFactory_set_language env
               \<lparr>ng_config = cfg, ng_n = n, ng_use_stemming = us,
                ng_common_words_gazetteer_name = gn,
                ng_gazetteer = None, ng_language = None\<rparr> lc"
    by (rule NgramFactory_initE)
  show ?thesis
    unfolding s using r
    by (cases lc; cases gn)
      (simp_all add: NgramFactory_init_def NgramFactory_set_language_def Let_def)
qed

lemma ShapeNgramFactory_initE:
  assumes "ShapeNgramFactory_init cfg = Inr s"
  obtains n language_code where
    "bind_res (get_arg cfg ''n'') as_int = Inr n" and "\<not> n < 1"
    and "as_opt_str (args_get cfg ''language_code'') = Inr language_code"
    and "s = ShapeNgramFactory_set_language
               \<lparr>sh_config = cfg, sh_n = n, sh_language = None\<rparr> language_code"
proof -
  from assms obtain n where n: "bind_res (get_arg cfg ''n'') as_int = Inr n"
    and r1: "(if n < 1 then Inl (ValueError ''n should be >= 1'')
       else
         bind_res (as_opt_str (args_get cfg ''language_code'')) (\<lambda>language_code.
           Inr (ShapeNgramFactory_set_language
                  \<lparr>sh_config = cfg, sh_n = n, sh_language = None\<rparr> language_code))) = Inr s"
    unfolding ShapeNgramFactory_init_def by (rule bind_res_InrE)
  from r1 have n1: "\<not> n < 1" by (auto split: if_splits)
  with r1 obtain lc where lc: "as_opt_str (args_get cfg ''language_code'') = Inr lc"
    and s: "s = ShapeNgramFactory_set_language
                  \<lparr>sh_config = cfg, sh_n = n, sh_language = None\<rparr> lc"
    by (auto elim: bind_res_InrE)
  from n n1 lc s show thesis by (rule that)
qed

lemma ShapeNgramFactory_rebuild:
  assumes "ShapeNgramFactory_init cfg = Inr s"
  shows "ShapeNgramFactory_init (sh_config (ShapeNgramFactory_set_language s (Some l)))
         = Inr (ShapeNgramFactory_set_language s (Some l))"
proof -
  from assms obtain n lc where
    r: "bind_res (get_arg cfg ''n'') as_int = Inr n" "\<not> n < 1"
    and s: "s = ShapeNgramFactory_set_language
               \<lparr>sh_config = cfg, sh_n = n, sh_language = None\<rparr> lc"
    by (rule ShapeNgramFactory_initE)
  show ?thesis
    unfolding s using r
    by (cases lc) (simp_all add: ShapeNgramFactory_init_def ShapeNgramFactory_set_language_def)
qed

lemma EntityMatchFactory_initE:
  assumes "EntityMatchFactory_init env cfg = Inr s"
  obtains use_stemming code scheme language_code where
    "bind_res (get_arg cfg ''use_stemming'') as_bool = Inr use_stemming"
    and "bind_res (get_arg cfg ''tagging_scheme_code'') as_int = Inr code"
    and "make_tagging_scheme env code = Inr scheme"
    and "as_opt_str (args_get cfg ''language_code'') = Inr language_code"
    and "s = EntityMatchFactory_set_language
               \<lparr>em_config = cfg, em_use_stemming = use_stemming, em_tagging_scheme = scheme,
                em_language = None\<rparr> language_code"
proof -
  from assms obtain us where us: "bind_res (get_arg cfg ''use_stemming'') as_bool = Inr us"
    and r1: "bind_res (bind_res (get_arg cfg ''tagging_scheme_code'') as_int) (\<lambda>code.
     bind_res (make_tagging_scheme env code) (\<lambda>scheme.
     bind_res (as_opt_str (args_get cfg ''language_code'')) (\<lambda>language_code.
       Inr (EntityMatchFactory_set_language
              \<lparr>em_config = cfg, em_use_stemming = us, em_tagging_scheme = scheme,
               em_language = None\<rparr> language_code)))) = Inr s"
    unfolding EntityMatchFactory_init_def by (rule bind_res_InrE)
  from r1 obtain code where code: "bind_res (get_arg cfg ''tagging_scheme_code'') as_int = Inr code"
    and r2: "bind_res (make_tagging_scheme env code) (\<lambda>scheme.
     bind_res (as_opt_str (args_get cfg ''language_code'')) (\<lambda>language_code.
       Inr (EntityMatchFactory_set_language
              \<lparr>em_config = cfg, em_use_stemming = us, em_tagging_scheme = scheme,
               em_language = None\<rparr> language_code))) = Inr s"
    by (rule bind_res_InrE)
  from r2 obtain scheme where scheme: "make_tagging_scheme env code = Inr scheme"
    and r3: "bind_res (as_opt_str (args_get cfg ''language_code'')) (\<lambda>language_code.
       Inr (EntityMatchFactory_set_language
              \<lparr>em_config = cfg, em_use_stemming = us, em_tagging_scheme = scheme,
               em_language = None\<rparr> language_code)) = Inr s"
    by (rule bind_res_InrE)
  from r3 obtain lc where lc: "as_opt_str (args_get cfg ''language_code'') = Inr lc"
    and s: "s = EntityMatchFactory_set_language
              \<lparr>em_config = cfg, em_use_stemming = us, em_tagging_scheme = scheme,
               em_language = None\<rparr> lc"
    by (auto elim: bind_res_InrE)
  from us code scheme lc s show thesis by (rule that)
qed

lemma EntityMatchFactory_rebuild:
  assumes "EntityMatchFactory_init env cfg = Inr s"
  shows "EntityMatchFactory_init env (em_config (EntityMatchFactory_set_language s (Some l)))
         = Inr (EntityMatchFactory_set_language s (Some l))"
proof -
  from assms obtain us code scheme lc where
    r: "bind_res (get_arg cfg ''use_stemming'') as_bool = Inr us"
      "bind_res (get_arg cfg ''tagging_scheme_code'') as_int = Inr code"
      "make_tagging_scheme env code = Inr scheme"
    and s: "s = EntityMatchFactory_set_language
               \<lparr>em_config = cfg, em_use_stemming = us, em_tagging_scheme = scheme,
                em_language = None\<rparr> lc"
    by (rule EntityMatchFactory_initE)
  show ?thesis
    unfolding s using r
    by (cases lc) (simp_all add: EntityMatchFactory_init_def EntityMatchFactory_set_language_def)
qed

lemma BuiltinEntityMatchFactory_initE:
  assumes "BuiltinEntityMatchFactory_init env cfg = Inr s"
  obtains code scheme entity_labels language_code where
    "bind_res (get_arg cfg ''tagging_scheme_code'') as_int = Inr code"
    and "make_tagging_scheme env code = Inr scheme"
    and "as_opt_labels (args_get cfg ''entity_labels'') = Inr entity_labels"
    and "as_opt_str (args_get cfg ''language_code'') = Inr language_code"
    and "s = BuiltinEntityMatchFactory_set_language
               \<lparr>be_config = cfg, be_tagging_scheme = scheme,
                be_builtin_entities = entity_labels, be_language = None\<rparr> language_code"
proof -
  from assms obtain code where code: "bind_res (get_arg cfg ''tagging_scheme_code'') as_int = Inr code"
    and r1: "bind_res (make_tagging_scheme env code) (\<lambda>scheme.
     bind_res (as_opt_labels (args_get cfg ''entity_labels'')) (\<lambda>entity_labels.
     bind_res (as_opt_str (args_get cfg ''language_code'')) (\<lambda>language_code.
       Inr (BuiltinEntityMatchFactory_set_language
              \<lparr>be_config = cfg, be_tagging_scheme = scheme,
               be_builtin_entities = entity_labels, be_language = None\<rparr> language_code)))) = Inr s"
    unfolding BuiltinEntityMatchFactory_init_def by (rule bind_res_InrE)
  from r1 obtain scheme where scheme: "make_tagging_scheme env code = Inr scheme"
    and r2: "bind_res (as_opt_labels (args_get cfg ''entity_labels'')) (\<lambda>entity_labels.
     bind_res (as_opt_str (args_get cfg ''language_code'')) (\<lambda>language_code.
       Inr (BuiltinEntityMatchFactory_set_language
              \<lparr>be_config = cfg, be_tagging_scheme = scheme,
               be_builtin_entities = entity_labels, be_language = None\<rparr> language_code))) = Inr s"
    by (rule bind_res_InrE)
  from r2 obtain labels where labels: "as_opt_labels (args_get cfg ''entity_labels'') = Inr labels"
    and r3: "bind_res (as_opt_str (args_get cfg ''language_code'')) (\<lambda>language_code.
       Inr (BuiltinEntityMatchFactory_set_language
              \<lparr>be_config = cfg, be_tagging_scheme = scheme,
               be_builtin_entities = labels, be_language = None\<rparr> language_code)) = Inr s"
    by (rule bind_res_InrE)
  from r3 obtain lc where lc: "as_opt_str (args_get cfg ''language_code'') = Inr lc"
    and s: "s = BuiltinEntityMatchFactory_set_language
              \<lparr>be_config = cfg, be_tagging_scheme = scheme,
               be_builtin_entities = labels, be_language = None\<rparr> lc"
    by (auto elim: bind_res_InrE)
  from code scheme labels lc s show thesis by (rule that)
qed

lemma BuiltinEntityMatchFactory_rebuild:
  assumes "BuiltinEntityMatchFactory_init env cfg = Inr s"
  shows "BuiltinEntityMatchFactory_init env
           (be_config (BuiltinEntityMatchFactory_fit env s dataset intent))
         = Inr (BuiltinEntityMatchFactory_fit env s dataset intent)"
proof -
  from assms obtain code scheme labels lc where
    r: "bind_res (get_arg cfg ''tagging_scheme_code'') as_int = Inr code"
      "make_tagging_scheme env code = Inr scheme"
    and s: "s = BuiltinEntityMatchFactory_set_language
               \<lparr>be_config = cfg, be_tagging_scheme = scheme,
                be_builtin_entities = labels, be_language = None\<rparr> lc"
    by (rule BuiltinEntityMatchFactory_initE)
  show ?thesis
    unfolding s using r
    by (cases lc)
      (simp_all add: BuiltinEntityMatchFactory_init_def BuiltinEntityMatchFactory_set_language_def
        BuiltinEntityMatchFactory_fit_def Let_def)
qed

lemma WordClusterFactory_initE:
  assumes "WordClusterFactory_init env cfg = Inr s"
  obtains cluster_name language_code s1 use_stemming where
    "bind_res (get_arg cfg ''cluster_name'') as_str = Inr cluster_name"
    and "as_opt_str (args_get cfg ''language_code'') = Inr language_code"
    and "WordClusterFactory_set_language env
           \<lparr>wc_config = cfg, wc_cluster_name = cluster_name, wc_cluster = None,
            wc_language = None, wc_use_stemming = False\<rparr> language_code = Inr s1"
    and "bind_res (get_arg (wc_config s1) ''use_stemming'') as_bool = Inr use_stemming"
    and "s = s1\<lparr>wc_use_stemming := use_stemming\<rparr>"
proof -
  from assms obtain cn where cn: "bind_res (get_arg cfg ''cluster_name'') as_str = Inr cn"
    and r1: "bind_res (as_opt_str (args_get cfg ''language_code'')) (\<lambda>language_code.
     bind_res (WordClusterFactory_set_language env
                 \<lparr>wc_config = cfg, wc_cluster_name = cn, wc_cluster = None,
                  wc_language = None, wc_use_stemming = False\<rparr> language_code) (\<lambda>s.
     bind_res (bind_res (get_arg (wc_config s) ''use_stemming'') as_bool) (\<lambda>use_stemming.
       Inr (s\<lparr>wc_use_stemming := use_stemming\<rparr>)))) = Inr s"
    unfolding WordClusterFactory_init_def by (rule bind_res_InrE)
  from r1 obtain lc where lc: "as_opt_str (args_get cfg ''language_code'') = Inr lc"
    and r2: "bind_res (WordClusterFactory_set_language env
                 \<lparr>wc_config = cfg, wc_cluster_name = cn, wc_cluster = None,
                  wc_language = None, wc_use_stemming = False\<rparr> lc) (\<lambda>s.
     bind_res (bind_res (get_arg (wc_config s) ''use_stemming'') as_bool) (\<lambda>use_stemming.
       Inr (s\<lparr>wc_use_stemming := use_stemming\<rparr>))) = Inr s"
    by (rule bind_res_InrE)
  from r2 obtain s1 where s1: "WordClusterFactory_set_language env
                 \<lparr>wc_config = cfg, wc_cluster_name = cn, wc_cluster = None,
                  wc_language = None, wc_use_stemming = False\<rparr> lc = Inr s1"
    and r3: "bind_res (bind_res (get_arg (wc_config s1) ''use_stemming'') as_bool) (\<lambda>use_stemming.
       Inr (s1\<lparr>wc_use_stemming := use_stemming\<rparr>)) = Inr s"
    by (rule bind_res_InrE)
  from r3 obtain us where us: "bind_res (get_arg (wc_config s1) ''use_stemming'') as_bool = Inr us"
    and s: "s = s1\<lparr>wc_use_stemming := us\<rparr>"
    by (auto elim: bind_res_InrE)
  from cn lc s1 us s show thesis by (rule that)
qed

lemma WordClusterFactory_rebuild:
  assumes "WordClusterFactory_init env cfg = Inr s"
    and "WordClusterFactory_set_language env s (Some l) = Inr s'"
  shows "WordClusterFactory_init env (wc_config s') = Inr s'"
proof -
  from assms(1) obtain cn lc s1 us where
    cn: "bind_res (get_arg cfg ''cluster_name'') as_str = Inr cn"
    and s1: "WordClusterFactory_set_language env
           \<lparr>wc_config = cfg, wc_cluster_name = cn, wc_cluster = None,
            wc_language = None, wc_use_stemming = False\<rparr> lc = Inr s1"
    and us: "bind_res (get_arg (wc_config s1) ''use_stemming'') as_bool = Inr us"
    and s: "s = s1\<lparr>wc_use_stemming := us\<rparr>"
    by (rule WordClusterFactory_initE)
  from s1 have shape: "wc_cluster_name s1 = cn"
    "wc_config s1 = cfg \<or> (\<exists>l0. wc_config s1 = set_arg cfg ''language_code'' (PyStr l0))"
    by (auto simp: WordClusterFactory_set_language_def Let_def split: option.splits)
  from us shape(2) have us': "bind_res (get_arg cfg ''use_stemming'') as_bool = Inr us"
    by auto
  from assms(2) s shape(1) obtain cluster where
    cl: "get_word_clusters env (Some l) cn = Some cluster"
    and s': "s' = s1\<lparr>wc_use_stemming := us, wc_language := Some l, wc_cluster := Some cluster,
                   wc_config := set_arg (wc_config s1) ''language_code'' (PyStr l)\<rparr>"
    by (auto simp: WordClusterFactory_set_language_def Let_def split: option.splits)
  have c: "wc_config s' = set_arg cfg ''language_code'' (PyStr l)"
    using shape(2) s' by auto
  have "WordClusterFactory_init env (set_arg cfg ''language_code'' (PyStr l)) = Inr s'"
    using cn us' cl s1 shape
    unfolding s'
    by (cases lc)
      (auto simp: WordClusterFactory_init_def WordClusterFactory_set_language_def Let_def
        split: option.splits)
  with c show ?thesis by simp
qed

text \<open>The name and offset of the features of each kind of factory.\<close>

lemma single_feature_keys:
  assumes "SingleFeatureFactory_build_features env self = Inr fts"
  shows "\<exists>name. feature_keys fts = map (Pair name) (offsets self)"
proof -
  from single_features [OF assms] obtain name where
    "fts = map (\<lambda>off. \<lparr>base_name = name, func = compute_feature env self,
                     offset = off, ft_drop_out = drop_out self\<rparr>) (offsets self)" ..
  then have "feature_keys fts = map (Pair name) (offsets self)"
    by (simp add: feature_keys_def comp_def)
  then show ?thesis ..
qed

lemma labelled_keys_product:
  "concat (map (\<lambda>label. map (\<lambda>off. (p @ label, off)) offs) labels) =
   map (\<lambda>(label, off). (p @ label, off)) (List.product labels offs)"
  by (induction labels) (simp_all add: comp_def)

lemma distinct_labelled_keys:
  assumes "distinct labels" and "distinct offs"
  shows "distinct (concat (map (\<lambda>label. map (\<lambda>off. (p @ label, off)) offs) labels))"
proof -
  have "inj_on (\<lambda>(label, off). (p @ label, off)) (set (List.product labels offs))"
    by (auto simp: inj_on_def)
  moreover have "distinct (List.product labels offs)"
    using assms by (rule distinct_product)
  ultimately show ?thesis
    unfolding labelled_keys_product by (simp add: distinct_map)
qed

lemma EntityMatchFactory_feature_keys:
  "EntityMatchFactory_build_features env s cp = Inr fts \<Longrightarrow>
   feature_keys fts =
     concat (map (\<lambda>label. map (\<lambda>off. (''entity_match_'' @ label, off)) (cfg_offsets (em_config s)))
       (list_of_dlist (cp_entities cp)))"
  by (auto simp: EntityMatchFactory_build_features_def feature_keys_def map_concat comp_def)

lemma BuiltinEntityMatchFactory_feature_keys:
  "BuiltinEntityMatchFactory_build_features env s bp = Inr fts \<Longrightarrow>
   \<exists>labels. be_builtin_entities s = Some labels \<and>
     feature_keys fts =
       concat (map (\<lambda>label. map (\<lambda>off. (''builtin_entity_match_'' @ label, off))
                 (cfg_offsets (be_config s))) labels)"
  by (auto simp: BuiltinEntityMatchFactory_build_features_def feature_keys_def map_concat comp_def
      split: option.splits)

lemma fit_config_frame:
  assumes "fit env self dataset intent = Inr (fitted, returned)"
  shows "cfg_factory_name (factory_config fitted) = cfg_factory_name (factory_config self)"
    and "cfg_offsets (factory_config fitted) = cfg_offsets (factory_config self)"
    and "cfg_drop_out (factory_config fitted) = cfg_drop_out (factory_config self)"
    and "key \<noteq> ''language_code'' \<Longrightarrow> key \<noteq> ''entity_labels'' \<Longrightarrow>
           cfg_args (factory_config fitted) key = cfg_args (factory_config self) key"
    and "class_of fitted = class_of self"
  using assms
  by (cases self;
      auto simp: NgramFactory_set_language_def ShapeNgramFactory_set_language_def
        WordClusterFactory_set_language_def EntityMatchFactory_set_language_def
        BuiltinEntityMatchFactory_set_language_def BuiltinEntityMatchFactory_fit_def Let_def
        elim!: bind_res_InrE split: option.splits)+

lemma fit_writes_language:
  assumes "fit env self dataset intent = Inr (fitted, returned)"
    and "class_of self \<in> {Ngram, ShapeNgram, WordCluster, EntityMatch, BuiltinEntityMatch}"
  shows "cfg_args (factory_config fitted) ''language_code'' = Some (PyStr (ds_language dataset))"
    and "language fitted = Some (ds_language dataset)"
  using assms
  by (cases self;
      auto simp: NgramFactory_set_language_def ShapeNgramFactory_set_language_def
        WordClusterFactory_set_language_def EntityMatchFactory_set_language_def
        BuiltinEntityMatchFactory_set_language_def BuiltinEntityMatchFactory_fit_def Let_def
        elim!: bind_res_InrE split: option.splits)+

lemma fit_entity_labels:
  assumes "fit env self dataset intent = Inr (fitted, returned)"
  shows "class_of self = BuiltinEntityMatch \<Longrightarrow>
           cfg_args (factory_config fitted) ''entity_labels''
             = Some (PyStrList (get_builtin_entity_scope env dataset intent))"
    and "class_of self \<noteq> BuiltinEntityMatch \<Longrightarrow>
           cfg_args (factory_config fitted) ''entity_labels''
             = cfg_args (factory_config self) ''entity_labels''"
  using assms
  by (cases self;
      auto simp: NgramFactory_set_language_def ShapeNgramFactory_set_language_def
        WordClusterFactory_set_language_def EntityMatchFactory_set_language_def
        BuiltinEntityMatchFactory_set_language_def BuiltinEntityMatchFactory_fit_def Let_def
        elim!: bind_res_InrE split: option.splits)+

lemma fit_unchanged:
  assumes "fit env self dataset intent = Inr (fitted, returned)"
    and "class_of self \<in> {IsDigit, IsFirst, IsLast, Prefix, Suffix, Length}"
  shows "fitted = self"
  using assms by (cases self) auto

lemma fit_rebuild:
  assumes "construct env cls cfg = Inr self"
    and "fit env self dataset intent = Inr (fitted, returned)"
    and "cls \<in> {Ngram, ShapeNgram, WordCluster, EntityMatch, BuiltinEntityMatch}"
  shows "construct env cls (factory_config fitted) = Inr fitted"
proof -
  from assms(3) consider "cls = Ngram" | "cls = ShapeNgram" | "cls = WordCluster"
    | "cls = EntityMatch" | "cls = BuiltinEntityMatch" by auto
  then show ?thesis
  proof cases
    case 1
    with assms(1) obtain s where s: "self = NgramFactory s" "NgramFactory_init env cfg = Inr s"
      by (auto elim!: bind_res_InrE)
    with assms(2) 1 show ?thesis
      using NgramFactory_rebuild [OF s(2), of "ds_language dataset"] by auto
  next
    case 2
    with assms(1) obtain s where s: "self = ShapeNgramFactory s" "ShapeNgramFactory_init cfg = Inr s"
      by (auto elim!: bind_res_InrE)
    with assms(2) 2 show ?thesis
      using ShapeNgramFactory_rebuild [OF s(2), of "ds_language dataset"] by auto
  next
    case 3
    with assms(1) obtain s where s: "self = WordClusterFactory s" "WordClusterFactory_init env cfg = Inr s"
      by (auto elim!: bind_res_InrE)
    with assms(2) obtain s' where s': "fitted = WordClusterFactory s'"
      "WordClusterFactory_set_language env s (Some (ds_language dataset)) = Inr s'"
      by (auto elim!: bind_res_InrE)
    with 3 show ?thesis
      using WordClusterFactory_rebuild [OF s(2) s'(2)] by auto
  next
    case 4
    with assms(1) obtain s where s: "self = EntityMatchFactory s" "EntityMatchFactory_init env cfg = Inr s"
      by (auto elim!: bind_res_InrE)
    with assms(2) 4 show ?thesis
      using EntityMatchFactory_rebuild [OF s(2), of "ds_language dataset"] by (auto simp: Let_def)
  next
    case 5
    with assms(1) obtain s where s: "self = BuiltinEntityMatchFactory s"
      "BuiltinEntityMatchFactory_init env cfg = Inr s"
      by (auto elim!: bind_res_InrE)
    with assms(2) 5 show ?thesis
      using BuiltinEntityMatchFactory_rebuild [OF s(2), of dataset intent] by auto
  qed
qed

lemma builtin_entity_match_selected:
  assumes "py_index tokens token_index = Inr target"
    and "filter (\<lambda>e. entity_filter e (tok_start target) (tok_end target))
           (bp_parse parser (initial_string_from_tokens env tokens) [builtin_entity] True)
         = ent # others"
  shows "builtin_entity_match env s builtin_entity parser tokens token_index =
         bind_res (get_scheme_prefix env token_index
             (map int (filter (\<lambda>k.
                  (range_start ent \<le> tok_start (tokens ! k) \<and> tok_start (tokens ! k) < range_end ent)
                  \<and> (range_start ent < tok_end (tokens ! k) \<and> tok_end (tokens ! k) \<le> range_end ent))
                [0..<length tokens]))
             (be_tagging_scheme s))
           (\<lambda>prefix. Inr (Some prefix))"
  using assms by (simp add: builtin_entity_match_def Let_def indexes_where_upt)

lemma single_features_named:
  assumes "SingleFeatureFactory_build_features env self = Inr fts"
  shows "\<exists>name. feature_keys fts = map (Pair name) (offsets self)
           \<and> (offsets self \<noteq> [] \<longrightarrow> feature_name self = Inr name)"
proof -
  from traverse_named [of "feature_name self"
      "\<lambda>name off. \<lparr>base_name = name, func = compute_feature env self, offset = off,
                   ft_drop_out = drop_out self\<rparr>" "offsets self" fts] assms
  consider name where "feature_name self = Inr name"
      "fts = map (\<lambda>off. \<lparr>base_name = name, func = compute_feature env self, offset = off,
                   ft_drop_out = drop_out self\<rparr>) (offsets self)"
    | "offsets self = []" "fts = []"
    unfolding SingleFeatureFactory_build_features_def by auto
  then show ?thesis
  proof cases
    case 1
    then have "feature_keys fts = map (Pair name) (offsets self)"
      by (simp add: feature_keys_def comp_def)
    with 1 show ?thesis by blast
  next
    case 2
    then show ?thesis by (simp add: feature_keys_def)
  qed
qed

text \<open>The builtin scope has no repeated label: a grammar-defined kind is not
  gazetteer-backed, and each of the two sets holds a label once.\<close>

lemma distinct_builtin_entity_scope: "distinct (get_builtin_entity_scope env dataset intent)"
  by (auto simp: get_builtin_entity_scope_def get_supported_grammar_entities_def
      get_dataset_gazetteer_entities_def Let_def)

lemma construct_offsets:
  assumes "construct env cls cfg = Inr self"
  shows "offsets self = cfg_offsets cfg"
proof (cases cls)
  case Ngram
  with assms obtain s where s: "self = NgramFactory s" "NgramFactory_init env cfg = Inr s"
    by (auto elim!: bind_res_InrE)
  from s(2) show ?thesis unfolding s(1)
    by (rule NgramFactory_initE)
      (auto simp: offsets_def NgramFactory_set_language_def Let_def split: option.splits)
next
  case ShapeNgram
  with assms obtain s where s: "self = ShapeNgramFactory s" "ShapeNgramFactory_init cfg = Inr s"
    by (auto elim!: bind_res_InrE)
  from s(2) show ?thesis unfolding s(1)
    by (rule ShapeNgramFactory_initE)
      (auto simp: offsets_def ShapeNgramFactory_set_language_def split: option.splits)
next
  case WordCluster
  with assms obtain s where s: "self = WordClusterFactory s" "WordClusterFactory_init env cfg = Inr s"
    by (auto elim!: bind_res_InrE)
  from s(2) show ?thesis unfolding s(1)
    by (rule WordClusterFactory_initE)
      (auto simp: offsets_def WordClusterFactory_set_language_def Let_def split: option.splits)
next
  case EntityMatch
  with assms obtain s where s: "self = EntityMatchFactory s" "EntityMatchFactory_init env cfg = Inr s"
    by (auto elim!: bind_res_InrE)
  from s(2) show ?thesis unfolding s(1)
    by (rule EntityMatchFactory_initE)
      (auto simp: offsets_def EntityMatchFactory_set_language_def split: option.splits)
next
  case BuiltinEntityMatch
  with assms obtain s where s: "self = BuiltinEntityMatchFactory s"
    "BuiltinEntityMatchFactory_init env cfg = Inr s"
    by (auto elim!: bind_res_InrE)
  from s(2) show ?thesis unfolding s(1)
    by (rule BuiltinEntityMatchFactory_initE)
      (auto simp: offsets_def BuiltinEntityMatchFactory_set_language_def split: option.splits)
qed (use assms in \<open>auto simp: offsets_def\<close>)

lemma fit_builtin_scope:
  assumes "fit env self dataset intent = Inr (fitted, returned)"
    and "class_of self = BuiltinEntityMatch"
  shows "\<exists>s. fitted = BuiltinEntityMatchFactory s
           \<and> be_builtin_entities s = Some (get_builtin_entity_scope env dataset intent)"
  using assms
  by (cases self) (auto simp: BuiltinEntityMatchFactory_fit_def Let_def)

lemma ngram_feature_func_outside:
  assumes "build_features env self bp cp = Inr fts" and "ft \<in> set fts"
    and "class_of self \<in> {Ngram, ShapeNgram}"
    and "\<not> (0 \<le> j \<and> j < int (length tokens))"
  shows "func ft tokens j = Inr None"
  using built_feature_func [OF assms(1,2)] assms(3,4)
  by (cases self)
    (auto simp: NgramFactory_compute_feature_outside ShapeNgramFactory_compute_feature_outside)

section \<open>The claims\<close>

text \<open>
  C1. Custom entity match: when the parser returns a match that passes the filter for
  the target token, the value is the tagging-scheme prefix computed from exactly the
  token indexes, in increasing order, whose transformed span (a non-empty span from the
  token's start to its start plus the length of the transformed value) lies fully inside
  the character range of the first such match; a token that only overlaps the range is
  left out.
\<close>

theorem entity_match_indexes_inside:
  assumes "py_index (map (transform env s) tokens) token_index = Inr target"
    and "filter (\<lambda>e. entity_filter e (tok_start target) (tok_end target))
           (cp_parse parser (initial_string_from_tokens env (map (transform env s) tokens))
              [entity_name] True) = ent # others"
  shows "entity_match env s entity_name parser tokens token_index =
         bind_res (get_scheme_prefix env token_index
             (map int (filter (\<lambda>k.
                  range_start ent \<le> tok_start (tokens ! k)
                  \<and> tok_value (transform env s (tokens ! k)) \<noteq> []
                  \<and> tok_start (tokens ! k) + int (length (tok_value (transform env s (tokens ! k))))
                       \<le> range_end ent)
                [0..<length tokens]))
             (em_tagging_scheme s))
           (\<lambda>prefix. Inr (Some prefix))"
proof -
  have "indexes_where (\<lambda>t. entity_filter ent (tok_start t) (tok_end t))
          (map (transform env s) tokens) =
        map int (filter (\<lambda>k.
                  range_start ent \<le> tok_start (tokens ! k)
                  \<and> tok_value (transform env s (tokens ! k)) \<noteq> []
                  \<and> tok_start (tokens ! k) + int (length (tok_value (transform env s (tokens ! k))))
                       \<le> range_end ent)
                [0..<length tokens])"
    unfolding indexes_where_upt
    by (auto intro!: filter_cong simp: entity_filter_def transform_def Let_def)
  then show ?thesis
    using assms by (simp add: entity_match_def Let_def)
qed

theorem entity_match_indexes_inside_witness:
  "entity_match example_env example_entity_match_state ''city'' example_custom_parser
     example_tokens 1 =
   bind_res (example_scheme_prefix 1 [1, 2] (TaggingScheme 2)) (\<lambda>prefix. Inr (Some prefix))
   \<and> entity_match example_env example_entity_match_state ''city'' example_custom_parser
     example_tokens 1 = Inr (Some ''B-'')"
  using entity_match_indexes_inside [of example_env example_entity_match_state example_tokens 1
      "\<lparr>tok_value = ''new'', tok_start = 3, tok_end = 6\<rparr>" example_custom_parser "''city''"
      "\<lparr>range_start = 3, range_end = 11, entity_kind = ''city''\<rparr>"
      "[\<lparr>range_start = 3, range_end = 6, entity_kind = ''city''\<rparr>]"]
  by (simp add: example_env_def example_entity_match_state_def example_custom_parser_def
      example_tokens_def transform_def py_index_def entity_filter_def
      example_scheme_prefix_def Let_def upt_rec)

text \<open>
  C2. Builtin entity match: a value is produced only when some match returned by the
  parser contains the target token, that is the token's start and its end both lie in
  the character range of the match; when every returned match fails to contain the
  target token (a partial overlap included) the result is no value. The token indexes
  handed to the tagging-scheme resolver are those of the tokens whose start and end both
  lie in the range of the first match that contains the target token.
\<close>

theorem builtin_entity_match_containment:
  "(\<forall>v. builtin_entity_match env s builtin_entity parser tokens token_index = Inr (Some v) \<longrightarrow>
      (\<exists>target ent. py_index tokens token_index = Inr target
         \<and> ent \<in> set (bp_parse parser (initial_string_from_tokens env tokens) [builtin_entity] True)
         \<and> range_start ent \<le> tok_start target \<and> tok_start target \<le> range_end ent
         \<and> range_start ent \<le> tok_end target \<and> tok_end target \<le> range_end ent))
   \<and> (\<forall>target. py_index tokens token_index = Inr target \<longrightarrow>
        (\<forall>ent \<in> set (bp_parse parser (initial_string_from_tokens env tokens) [builtin_entity] True).
            \<not> (range_start ent \<le> tok_start target \<and> tok_end target \<le> range_end ent)) \<longrightarrow>
        builtin_entity_match env s builtin_entity parser tokens token_index = Inr None)
   \<and> (\<forall>target ent others. py_index tokens token_index = Inr target \<longrightarrow>
        filter (\<lambda>e. entity_filter e (tok_start target) (tok_end target))
           (bp_parse parser (initial_string_from_tokens env tokens) [builtin_entity] True)
         = ent # others \<longrightarrow>
        builtin_entity_match env s builtin_entity parser tokens token_index =
         bind_res (get_scheme_prefix env token_index
             (map int (filter (\<lambda>k.
                  (range_start ent \<le> tok_start (tokens ! k) \<and> tok_start (tokens ! k) < range_end ent)
                  \<and> (range_start ent < tok_end (tokens ! k) \<and> tok_end (tokens ! k) \<le> range_end ent))
                [0..<length tokens]))
             (be_tagging_scheme s))
           (\<lambda>prefix. Inr (Some prefix)))"
proof (intro conjI allI impI)
  fix v
  assume "builtin_entity_match env s builtin_entity parser tokens token_index = Inr (Some v)"
  from builtin_entity_match_value [OF this]
  show "\<exists>target ent. py_index tokens token_index = Inr target
         \<and> ent \<in> set (bp_parse parser (initial_string_from_tokens env tokens) [builtin_entity] True)
         \<and> range_start ent \<le> tok_start target \<and> tok_start target \<le> range_end ent
         \<and> range_start ent \<le> tok_end target \<and> tok_end target \<le> range_end ent"
    unfolding entity_filter_def by fastforce
next
  fix target
  assume t: "py_index tokens token_index = Inr target"
    and no: "\<forall>ent \<in> set (bp_parse parser (initial_string_from_tokens env tokens) [builtin_entity] True).
            \<not> (range_start ent \<le> tok_start target \<and> tok_end target \<le> range_end ent)"
  from no have "\<forall>e \<in> set (bp_parse parser (initial_string_from_tokens env tokens) [builtin_entity] True).
            \<not> entity_filter e (tok_start target) (tok_end target)"
    by (auto simp: entity_filter_def)
  with t show "builtin_entity_match env s builtin_entity parser tokens token_index = Inr None"
    by (rule builtin_entity_match_none)
next
  fix target ent others
  assume "py_index tokens token_index = Inr target"
    and "filter (\<lambda>e. entity_filter e (tok_start target) (tok_end target))
           (bp_parse parser (initial_string_from_tokens env tokens) [builtin_entity] True)
         = ent # others"
  then show "builtin_entity_match env s builtin_entity parser tokens token_index =
         bind_res (get_scheme_prefix env token_index
             (map int (filter (\<lambda>k.
                  (range_start ent \<le> tok_start (tokens ! k) \<and> tok_start (tokens ! k) < range_end ent)
                  \<and> (range_start ent < tok_end (tokens ! k) \<and> tok_end (tokens ! k) \<le> range_end ent))
                [0..<length tokens]))
             (be_tagging_scheme s))
           (\<lambda>prefix. Inr (Some prefix))"
    by (rule builtin_entity_match_selected)
qed

theorem builtin_entity_match_containment_witness:
  "builtin_entity_match example_env example_builtin_state ''snips/number''
     example_builtin_parser example_tokens 1 = Inr None
   \<and> builtin_entity_match example_env example_builtin_state ''snips/number''
     example_builtin_parser
     [\<lparr>tok_value = ''new'', tok_start = 3, tok_end = 6\<rparr>] 0 = Inr None
   \<and> builtin_entity_match example_env example_builtin_state ''snips/number''
     example_builtin_parser example_tokens 2 =
       bind_res (example_scheme_prefix 2 [2] (TaggingScheme 2)) (\<lambda>prefix. Inr (Some prefix))"
  using builtin_entity_match_containment [of example_env example_builtin_state "''snips/number''"
      example_builtin_parser example_tokens 1]
    builtin_entity_match_containment [of example_env example_builtin_state "''snips/number''"
      example_builtin_parser "[\<lparr>tok_value = ''new'', tok_start = 3, tok_end = 6\<rparr>]" 0]
    builtin_entity_match_containment [of example_env example_builtin_state "''snips/number''"
      example_builtin_parser example_tokens 2]
  by (simp add: example_builtin_parser_def example_tokens_def py_index_def
      example_env_def example_builtin_state_def entity_filter_def upt_rec)

text \<open>
  C3. In both entity-match functions the first match, in the parser's order, that passes
  the filter for the target token decides the value, whatever follows it in the parser's
  result; when no returned match passes the filter the result is no value.
\<close>

theorem entity_match_first_match_only:
  "(py_index (map (transform env cs) tokens) token_index = Inr ctarget \<longrightarrow>
      cp_parse cparser (initial_string_from_tokens env (map (transform env cs) tokens))
        [entity_name] True = cpre @ cent # cpost \<longrightarrow>
      (\<forall>e \<in> set cpre. \<not> entity_filter e (tok_start ctarget) (tok_end ctarget)) \<longrightarrow>
      entity_filter cent (tok_start ctarget) (tok_end ctarget) \<longrightarrow>
      entity_match env cs entity_name cparser tokens token_index =
        bind_res (get_scheme_prefix env token_index
            (indexes_where (\<lambda>t. entity_filter cent (tok_start t) (tok_end t))
               (map (transform env cs) tokens))
            (em_tagging_scheme cs))
          (\<lambda>prefix. Inr (Some prefix)))
   \<and> (py_index (map (transform env cs) tokens) token_index = Inr ctarget \<longrightarrow>
      (\<forall>e \<in> set (cp_parse cparser
           (initial_string_from_tokens env (map (transform env cs) tokens)) [entity_name] True).
         \<not> entity_filter e (tok_start ctarget) (tok_end ctarget)) \<longrightarrow>
      entity_match env cs entity_name cparser tokens token_index = Inr None)
   \<and> (py_index tokens token_index = Inr btarget \<longrightarrow>
      bp_parse bparser (initial_string_from_tokens env tokens) [builtin_entity] True
        = bpre @ bent # bpost \<longrightarrow>
      (\<forall>e \<in> set bpre. \<not> entity_filter e (tok_start btarget) (tok_end btarget)) \<longrightarrow>
      entity_filter bent (tok_start btarget) (tok_end btarget) \<longrightarrow>
      builtin_entity_match env bs builtin_entity bparser tokens token_index =
        bind_res (get_scheme_prefix env token_index
            (indexes_where (\<lambda>t. (range_start bent \<le> tok_start t \<and> tok_start t < range_end bent)
                               \<and> (range_start bent < tok_end t \<and> tok_end t \<le> range_end bent))
               tokens)
            (be_tagging_scheme bs))
          (\<lambda>prefix. Inr (Some prefix)))
   \<and> (py_index tokens token_index = Inr btarget \<longrightarrow>
      (\<forall>e \<in> set (bp_parse bparser (initial_string_from_tokens env tokens) [builtin_entity] True).
         \<not> entity_filter e (tok_start btarget) (tok_end btarget)) \<longrightarrow>
      builtin_entity_match env bs builtin_entity bparser tokens token_index = Inr None)"
  using entity_match_first [of env cs tokens token_index ctarget cparser entity_name cpre cent cpost]
    entity_match_none [of env cs tokens token_index ctarget cparser entity_name]
    builtin_entity_match_first [of tokens token_index btarget bparser env builtin_entity
      bpre bent bpost bs]
    builtin_entity_match_none [of tokens token_index btarget bparser env builtin_entity bs]
  by blast

theorem entity_match_first_match_only_witness:
  "entity_match example_env example_entity_match_state ''city'' example_custom_parser
     example_tokens 1 = Inr (Some ''B-'')
   \<and> entity_match example_env example_entity_match_state ''city'' example_custom_parser
     example_tokens 0 = Inr None
   \<and> builtin_entity_match example_env example_builtin_state ''snips/number''
     example_builtin_parser example_tokens 2 = Inr (Some ''U-'')
   \<and> builtin_entity_match example_env example_builtin_state ''snips/number''
     example_builtin_parser example_tokens 1 = Inr None"
  using entity_match_first_match_only [of example_env example_entity_match_state example_tokens 1
      "\<lparr>tok_value = ''new'', tok_start = 3, tok_end = 6\<rparr>" example_custom_parser "''city''"
      "[]" "\<lparr>range_start = 3, range_end = 11, entity_kind = ''city''\<rparr>"
      "[\<lparr>range_start = 3, range_end = 6, entity_kind = ''city''\<rparr>]"
      "\<lparr>tok_value = ''new'', tok_start = 3, tok_end = 6\<rparr>" example_builtin_parser
      "''snips/number''" "[]" "\<lparr>range_start = 4, range_end = 11, entity_kind = ''snips/number''\<rparr>"
      "[\<lparr>range_start = 7, range_end = 11, entity_kind = ''snips/number''\<rparr>]"
      example_builtin_state]
    entity_match_first_match_only [of example_env example_entity_match_state example_tokens 0
      "\<lparr>tok_value = ''to'', tok_start = 0, tok_end = 2\<rparr>" example_custom_parser "''city''"
      "[]" "\<lparr>range_start = 3, range_end = 11, entity_kind = ''city''\<rparr>"
      "[\<lparr>range_start = 3, range_end = 6, entity_kind = ''city''\<rparr>]"
      "\<lparr>tok_value = ''to'', tok_start = 0, tok_end = 2\<rparr>" example_builtin_parser
      "''snips/number''" "[]" "\<lparr>range_start = 4, range_end = 11, entity_kind = ''snips/number''\<rparr>"
      "[\<lparr>range_start = 7, range_end = 11, entity_kind = ''snips/number''\<rparr>]"
      example_builtin_state]
    entity_match_first_match_only [of example_env example_entity_match_state example_tokens 2
      "\<lparr>tok_value = ''york'', tok_start = 7, tok_end = 11\<rparr>" example_custom_parser "''city''"
      "[]" "\<lparr>range_start = 3, range_end = 11, entity_kind = ''city''\<rparr>"
      "[\<lparr>range_start = 3, range_end = 6, entity_kind = ''city''\<rparr>]"
      "\<lparr>tok_value = ''york'', tok_start = 7, tok_end = 11\<rparr>" example_builtin_parser
      "''snips/number''" "[]" "\<lparr>range_start = 4, range_end = 11, entity_kind = ''snips/number''\<rparr>"
      "[\<lparr>range_start = 7, range_end = 11, entity_kind = ''snips/number''\<rparr>]"
      example_builtin_state]
  by (simp add: example_env_def example_entity_match_state_def example_builtin_state_def
      example_custom_parser_def example_builtin_parser_def
      example_tokens_def transform_def py_index_def entity_filter_def indexes_where_upt
      example_scheme_prefix_def Let_def upt_rec)

text \<open>
  C4. Evaluating a feature whose shifted index \<open>token_index + offset\<close> lies outside
  \<open>[0, len(tokens))\<close> yields no value, whatever the feature: the compute function is not
  called there, so no out-of-bounds failure arises. The n-gram and shape-n-gram compute
  functions return no value unless \<open>0 \<le> token_index < len(tokens)\<close> and
  \<open>token_index + n \<le> len(tokens)\<close>, and they never fail; so the function of a feature
  built by a factory of these two kinds yields no value at every index outside
  \<open>[0, len(tokens))\<close> by itself.
\<close>

theorem evaluate_outside_range_no_value:
  "(\<forall>ft :: feature. \<not> (0 \<le> i + offset ft \<and> i + offset ft < int (length tokens)) \<longrightarrow>
        evaluate ft tokens i = Inr None)
   \<and> (\<not> (0 \<le> i \<and> i < int (length tokens) \<and> i + ng_n ns \<le> int (length tokens)) \<longrightarrow>
        NgramFactory_compute_feature env ns tokens i = Inr None)
   \<and> (\<forall>e. NgramFactory_compute_feature env ns tokens i \<noteq> Inl e)
   \<and> (\<not> (0 \<le> i \<and> i < int (length tokens) \<and> i + sh_n ss \<le> int (length tokens)) \<longrightarrow>
        ShapeNgramFactory_compute_feature env ss tokens i = Inr None)
   \<and> (\<forall>e. ShapeNgramFactory_compute_feature env ss tokens i \<noteq> Inl e)
   \<and> (\<forall>fts ft. build_features env self bp cp = Inr fts \<longrightarrow> ft \<in> set fts \<longrightarrow>
        class_of self \<in> {Ngram, ShapeNgram} \<longrightarrow>
        \<not> (0 \<le> i \<and> i < int (length tokens)) \<longrightarrow> func ft tokens i = Inr None)"
proof (intro conjI allI impI)
  fix ft :: feature
  assume "\<not> (0 \<le> i + offset ft \<and> i + offset ft < int (length tokens))"
  then show "evaluate ft tokens i = Inr None"
    by (auto simp: evaluate_def Let_def)
next
  fix fts ft
  assume "build_features env self bp cp = Inr fts" and "ft \<in> set fts"
    and "class_of self \<in> {Ngram, ShapeNgram}"
    and "\<not> (0 \<le> i \<and> i < int (length tokens))"
  then show "func ft tokens i = Inr None"
    by (rule ngram_feature_func_outside)
qed (simp_all add: NgramFactory_compute_feature_outside NgramFactory_compute_feature_no_failure
    ShapeNgramFactory_compute_feature_outside ShapeNgramFactory_compute_feature_no_failure)

theorem evaluate_outside_range_no_value_witness:
  "evaluate (example_length_feature 1) example_tokens 2 = Inr None
   \<and> evaluate (example_length_feature (- 1)) example_tokens 0 = Inr None
   \<and> evaluate (example_length_feature 1) example_tokens 1 = Inr (Some ''4'')
   \<and> NgramFactory_compute_feature example_env example_ngram_state example_tokens 3 = Inr None
   \<and> NgramFactory_compute_feature example_env example_ngram_state example_tokens (- 1) = Inr None
   \<and> NgramFactory_compute_feature example_env example_ngram_state example_tokens 2
       = Inr (Some ''york'')"
  using evaluate_outside_range_no_value [of 2 example_tokens example_ngram_state example_env]
    evaluate_outside_range_no_value [of 0 example_tokens example_ngram_state example_env]
    evaluate_outside_range_no_value [of 3 example_tokens example_ngram_state example_env]
    evaluate_outside_range_no_value [of "- 1" example_tokens example_ngram_state example_env]
  by (simp add: example_ngram_state_def example_tokens_def example_env_def
      NgramFactory_compute_feature_def py_slice_def Let_def
      example_length_feature_def example_config_def evaluate_def
      LengthFactory_compute_feature_def py_index_def py_str_int_def)

text \<open>
  C5 (the code at a failing input). \<open>fit\<close> of an n-gram factory, of a shape-n-gram
  factory and of a builtin entity-match factory returns \<open>None\<close>, not the factory; \<open>fit\<close>
  of an entity-match factory and of a length factory returns the factory.
\<close>

theorem fit_return_value_None:
  "fit_return_value example_env (NgramFactory example_ngram_state) example_dataset None = Inr None
   \<and> fit_return_value example_env
        (ShapeNgramFactory \<lparr>sh_config = example_config ''shape_ngram'' [''n'' \<mapsto> PyInt 1] [0],
                            sh_n = 1, sh_language = None\<rparr>) example_dataset None = Inr None
   \<and> fit_return_value example_env (BuiltinEntityMatchFactory example_builtin_state)
        example_dataset None = Inr None
   \<and> fit_return_value example_env (EntityMatchFactory example_entity_match_state)
        example_dataset None \<noteq> Inr None
   \<and> fit_return_value example_env (LengthFactory (example_config ''length'' Map.empty [0]))
        example_dataset None
       = Inr (Some (LengthFactory (example_config ''length'' Map.empty [0])))"
  by (simp add: fit_return_value_def Let_def)

text \<open>
  C6 (as stated). An n-gram factory is built from a configuration whose \<open>args\<close> have no
  \<open>language_code\<close>; after \<open>fit\<close> the \<open>args\<close> of that configuration hold
  \<open>language_code = "en"\<close>.
\<close>

theorem fit_mutates_config_counterexample:
  "construct example_env Ngram (example_config ''ngram'' example_ngram_args [0])
     = Inr (NgramFactory example_ngram_state)
   \<and> factory_config (NgramFactory example_ngram_state)
     = example_config ''ngram'' example_ngram_args [0]
   \<and> cfg_args (example_config ''ngram'' example_ngram_args [0]) ''language_code'' = None
   \<and> fit_factory example_env (NgramFactory example_ngram_state) example_dataset None
     = Inr (NgramFactory example_fitted_ngram_state)
   \<and> cfg_args (factory_config (NgramFactory example_fitted_ngram_state)) ''language_code''
     = Some (PyStr ''en'')"
  by (simp add: example_ngram_state_def example_fitted_ngram_state_def example_config_def
      example_ngram_args_def example_dataset_def fit_factory_def
      NgramFactory_init_def get_arg_def args_get_def as_int_def as_bool_def as_opt_str_def
      NgramFactory_set_language_def Let_def set_arg_def)

text \<open>
  C6 (amended). \<open>fit\<close> leaves \<open>factory_name\<close>, \<open>offsets\<close> and \<open>drop_out\<close> of the
  configuration unchanged, and every entry of \<open>args\<close> other than \<open>language_code\<close> and
  \<open>entity_labels\<close>. For the six language-independent kinds the factory, and so its
  configuration, is unchanged. For the five language-dependent kinds \<open>fit\<close> writes the
  dataset's language to \<open>args["language_code"]\<close>; the builtin entity-match kind also
  writes its entity scope to \<open>args["entity_labels"]\<close>, and no other kind changes that
  entry.
\<close>

theorem fit_config_effect:
  "fit env self dataset intent = Inr (fitted, returned) \<longrightarrow>
     cfg_factory_name (factory_config fitted) = cfg_factory_name (factory_config self)
   \<and> cfg_offsets (factory_config fitted) = cfg_offsets (factory_config self)
   \<and> cfg_drop_out (factory_config fitted) = cfg_drop_out (factory_config self)
   \<and> (\<forall>key. key \<noteq> ''language_code'' \<longrightarrow> key \<noteq> ''entity_labels'' \<longrightarrow>
         cfg_args (factory_config fitted) key = cfg_args (factory_config self) key)
   \<and> (class_of self \<in> {IsDigit, IsFirst, IsLast, Prefix, Suffix, Length} \<longrightarrow> fitted = self)
   \<and> (class_of self \<in> {Ngram, ShapeNgram, WordCluster, EntityMatch, BuiltinEntityMatch} \<longrightarrow>
         cfg_args (factory_config fitted) ''language_code'' = Some (PyStr (ds_language dataset)))
   \<and> (class_of self = BuiltinEntityMatch \<longrightarrow>
         cfg_args (factory_config fitted) ''entity_labels''
           = Some (PyStrList (get_builtin_entity_scope env dataset intent)))
   \<and> (class_of self \<noteq> BuiltinEntityMatch \<longrightarrow>
         cfg_args (factory_config fitted) ''entity_labels''
           = cfg_args (factory_config self) ''entity_labels'')"
proof
  assume f: "fit env self dataset intent = Inr (fitted, returned)"
  show "cfg_factory_name (factory_config fitted) = cfg_factory_name (factory_config self)
   \<and> cfg_offsets (factory_config fitted) = cfg_offsets (factory_config self)
   \<and> cfg_drop_out (factory_config fitted) = cfg_drop_out (factory_config self)
   \<and> (\<forall>key. key \<noteq> ''language_code'' \<longrightarrow> key \<noteq> ''entity_labels'' \<longrightarrow>
         cfg_args (factory_config fitted) key = cfg_args (factory_config self) key)
   \<and> (class_of self \<in> {IsDigit, IsFirst, IsLast, Prefix, Suffix, Length} \<longrightarrow> fitted = self)
   \<and> (class_of self \<in> {Ngram, ShapeNgram, WordCluster, EntityMatch, BuiltinEntityMatch} \<longrightarrow>
         cfg_args (factory_config fitted) ''language_code'' = Some (PyStr (ds_language dataset)))
   \<and> (class_of self = BuiltinEntityMatch \<longrightarrow>
         cfg_args (factory_config fitted) ''entity_labels''
           = Some (PyStrList (get_builtin_entity_scope env dataset intent)))
   \<and> (class_of self \<noteq> BuiltinEntityMatch \<longrightarrow>
         cfg_args (factory_config fitted) ''entity_labels''
           = cfg_args (factory_config self) ''entity_labels'')"
    using fit_config_frame [OF f] fit_unchanged [OF f] fit_writes_language(1) [OF f]
      fit_entity_labels [OF f]
    by (intro conjI allI impI) assumption+
qed

theorem fit_config_effect_witness:
  "cfg_args (be_config (BuiltinEntityMatchFactory_fit example_env example_builtin_state
       example_dataset None)) ''language_code'' = Some (PyStr ''en'')
   \<and> cfg_args (be_config (BuiltinEntityMatchFactory_fit example_env example_builtin_state
       example_dataset None)) ''entity_labels'' = Some (PyStrList [''snips/number''])
   \<and> cfg_args (be_config (BuiltinEntityMatchFactory_fit example_env example_builtin_state
       example_dataset None)) ''tagging_scheme_code'' = Some (PyInt 2)
   \<and> cfg_offsets (be_config (BuiltinEntityMatchFactory_fit example_env example_builtin_state
       example_dataset None)) = [0]"
  using fit_config_effect [of example_env "BuiltinEntityMatchFactory example_builtin_state"
      example_dataset None
      "BuiltinEntityMatchFactory (BuiltinEntityMatchFactory_fit example_env example_builtin_state
         example_dataset None)" None]
  by (simp add: example_builtin_state_def example_config_def example_env_def
      example_dataset_def get_builtin_entity_scope_def get_supported_grammar_entities_def
      get_dataset_gazetteer_entities_def Let_def)

text \<open>
  C7 (as stated). An is-digit factory is built from a configuration with the offsets
  \<open>[0, 0]\<close> and fitted; \<open>build_features\<close> returns two features of the same base name at
  the same offset.
\<close>

theorem feature_names_unique_counterexample:
  "construct example_env IsDigit (example_config ''is_digit'' Map.empty [0, 0])
     = Inr (IsDigitFactory (example_config ''is_digit'' Map.empty [0, 0]))
   \<and> fit_factory example_env (IsDigitFactory (example_config ''is_digit'' Map.empty [0, 0]))
       example_dataset None
     = Inr (IsDigitFactory (example_config ''is_digit'' Map.empty [0, 0]))
   \<and> built_feature_keys example_env (IsDigitFactory (example_config ''is_digit'' Map.empty [0, 0]))
       example_builtin_parser example_custom_parser
     = Inr [(''is_digit'', 0), (''is_digit'', 0)]"
  by (simp add: built_feature_keys_def feature_keys_def example_config_def fit_factory_def
      SingleFeatureFactory_build_features_def offsets_def drop_out_def factory_name_def)

text \<open>
  C7 (amended). For a factory built from a configuration and fitted, \<open>build_features\<close>
  returns exactly one feature for every pair of a name and an entry of the
  configuration's \<open>offsets\<close>, in order: the names are the single parameter-derived
  feature name of a single-feature kind, \<open>entity_match_<label>\<close> for every label of the
  custom parser, and \<open>builtin_entity_match_<label>\<close> for every label of the scope bound
  by \<open>fit\<close> (the grammar-supported entities followed by the dataset's gazetteer
  entities, no label twice). When \<open>offsets\<close> has no repeated entry no two features share
  base name and offset; in particular the builtin entity-match factory then produces
  exactly one feature for each pair of a label and an offset.
\<close>

theorem feature_names_unique:
  "construct env cls cfg = Inr self \<longrightarrow>
   fit env self dataset intent = Inr (fitted, returned) \<longrightarrow>
   build_features env fitted bp cp = Inr fts \<longrightarrow>
     offsets fitted = cfg_offsets cfg
   \<and> (cls \<notin> {EntityMatch, BuiltinEntityMatch} \<longrightarrow>
        (\<exists>name. feature_keys fts = map (Pair name) (cfg_offsets cfg)
           \<and> (cfg_offsets cfg \<noteq> [] \<longrightarrow> feature_name fitted = Inr name)))
   \<and> (cls = EntityMatch \<longrightarrow>
        feature_keys fts =
          concat (map (\<lambda>label. map (Pair (''entity_match_'' @ label)) (cfg_offsets cfg))
            (list_of_dlist (cp_entities cp))))
   \<and> (cls = BuiltinEntityMatch \<longrightarrow>
        feature_keys fts =
          concat (map (\<lambda>label. map (Pair (''builtin_entity_match_'' @ label)) (cfg_offsets cfg))
            (get_builtin_entity_scope env dataset intent))
        \<and> distinct (get_builtin_entity_scope env dataset intent))
   \<and> (distinct (cfg_offsets cfg) \<longrightarrow> distinct (feature_keys fts))"
proof (intro impI)
  assume c: "construct env cls cfg = Inr self"
    and f: "fit env self dataset intent = Inr (fitted, returned)"
    and b: "build_features env fitted bp cp = Inr fts"
  from c have cl: "class_of self = cls" by (rule construct_class_of)
  with fit_config_frame(5) [OF f] have clf: "class_of fitted = cls" by simp
  have o: "offsets fitted = cfg_offsets cfg"
    using construct_offsets [OF c] fit_config_frame(2) [OF f] by (simp add: offsets_def)
  have single: "\<exists>name. feature_keys fts = map (Pair name) (cfg_offsets cfg)
           \<and> (cfg_offsets cfg \<noteq> [] \<longrightarrow> feature_name fitted = Inr name)"
    if "cls \<notin> {EntityMatch, BuiltinEntityMatch}"
  proof -
    from that clf b have "SingleFeatureFactory_build_features env fitted = Inr fts"
      by (cases fitted) auto
    from single_features_named [OF this] o show ?thesis by simp
  qed
  have custom: "feature_keys fts =
          concat (map (\<lambda>label. map (Pair (''entity_match_'' @ label)) (cfg_offsets cfg))
            (list_of_dlist (cp_entities cp)))"
    if "cls = EntityMatch"
  proof -
    from that clf obtain s where s: "fitted = EntityMatchFactory s" by (cases fitted) auto
    with b have "feature_keys fts =
      concat (map (\<lambda>label. map (\<lambda>off. (''entity_match_'' @ label, off)) (cfg_offsets (em_config s)))
       (list_of_dlist (cp_entities cp)))"
      by (simp add: EntityMatchFactory_feature_keys)
    with o s show ?thesis by (simp add: offsets_def)
  qed
  have builtin: "feature_keys fts =
          concat (map (\<lambda>label. map (Pair (''builtin_entity_match_'' @ label)) (cfg_offsets cfg))
            (get_builtin_entity_scope env dataset intent))"
    if "cls = BuiltinEntityMatch"
  proof -
    from that cl fit_builtin_scope [OF f] obtain s where
      s: "fitted = BuiltinEntityMatchFactory s"
        "be_builtin_entities s = Some (get_builtin_entity_scope env dataset intent)" by auto
    with b BuiltinEntityMatchFactory_feature_keys [of env s bp fts]
    have "feature_keys fts =
       concat (map (\<lambda>label. map (\<lambda>off. (''builtin_entity_match_'' @ label, off))
                 (cfg_offsets (be_config s))) (get_builtin_entity_scope env dataset intent))"
      by auto
    with o s show ?thesis by (simp add: offsets_def)
  qed
  have d: "distinct (feature_keys fts)" if dist: "distinct (cfg_offsets cfg)"
  proof -
    consider "cls \<notin> {EntityMatch, BuiltinEntityMatch}" | "cls = EntityMatch"
      | "cls = BuiltinEntityMatch" by auto
    then show ?thesis
    proof cases
      case 1
      from single [OF 1] dist show ?thesis by (auto simp: distinct_map inj_on_def)
    next
      case 2
      from custom [OF 2] dist show ?thesis
        using distinct_labelled_keys [of "list_of_dlist (cp_entities cp)" "cfg_offsets cfg"
            "''entity_match_''"]
        by simp
    next
      case 3
      from builtin [OF 3] dist show ?thesis
        using distinct_labelled_keys [of "get_builtin_entity_scope env dataset intent"
            "cfg_offsets cfg" "''builtin_entity_match_''"]
          distinct_builtin_entity_scope [of env dataset intent]
        by simp
    qed
  qed
  from o single custom builtin d distinct_builtin_entity_scope [of env dataset intent]
  show "offsets fitted = cfg_offsets cfg
   \<and> (cls \<notin> {EntityMatch, BuiltinEntityMatch} \<longrightarrow>
        (\<exists>name. feature_keys fts = map (Pair name) (cfg_offsets cfg)
           \<and> (cfg_offsets cfg \<noteq> [] \<longrightarrow> feature_name fitted = Inr name)))
   \<and> (cls = EntityMatch \<longrightarrow>
        feature_keys fts =
          concat (map (\<lambda>label. map (Pair (''entity_match_'' @ label)) (cfg_offsets cfg))
            (list_of_dlist (cp_entities cp))))
   \<and> (cls = BuiltinEntityMatch \<longrightarrow>
        feature_keys fts =
          concat (map (\<lambda>label. map (Pair (''builtin_entity_match_'' @ label)) (cfg_offsets cfg))
            (get_builtin_entity_scope env dataset intent))
        \<and> distinct (get_builtin_entity_scope env dataset intent))
   \<and> (distinct (cfg_offsets cfg) \<longrightarrow> distinct (feature_keys fts))"
    by blast
qed

theorem feature_names_unique_witness:
  "built_feature_keys example_env
     (BuiltinEntityMatchFactory
        (BuiltinEntityMatchFactory_fit example_env example_builtin_state
           example_music_dataset None))
     example_builtin_parser example_custom_parser
     = Inr [(''builtin_entity_match_snips/number'', 0),
            (''builtin_entity_match_snips/musicArtist'', 0)]
   \<and> get_builtin_entity_scope example_env example_music_dataset None
     = [''snips/number'', ''snips/musicArtist'']"
  using feature_names_unique [of example_env BuiltinEntityMatch "be_config example_builtin_state"
      "BuiltinEntityMatchFactory example_builtin_state" example_music_dataset None
      "BuiltinEntityMatchFactory
        (BuiltinEntityMatchFactory_fit example_env example_builtin_state
           example_music_dataset None)" None example_builtin_parser example_custom_parser
      "projr (build_features example_env
        (BuiltinEntityMatchFactory
          (BuiltinEntityMatchFactory_fit example_env example_builtin_state
             example_music_dataset None)) example_builtin_parser example_custom_parser)"]
  by (simp add: built_feature_keys_def feature_keys_def example_builtin_state_def
      example_config_def example_env_def example_music_dataset_def
      BuiltinEntityMatchFactory_init_def BuiltinEntityMatchFactory_set_language_def
      BuiltinEntityMatchFactory_fit_def BuiltinEntityMatchFactory_build_features_def
      get_builtin_entity_scope_def get_supported_grammar_entities_def
      get_dataset_gazetteer_entities_def make_tagging_scheme_def
      get_arg_def args_get_def as_int_def as_opt_str_def as_opt_labels_def
      Let_def set_arg_def)

text \<open>
  C8. An n-gram factory built from a configuration with \<open>n = 1\<close>, \<open>use_stemming\<close> false
  and no gazetteer name, and then fitted, computes at every token index inside the
  sequence exactly the normalized value of the token at that index.
\<close>

theorem unigram_is_normalization:
  assumes "construct env Ngram cfg = Inr self"
    and "fit env self dataset intent = Inr (fitted, returned)"
    and "cfg_args cfg ''n'' = Some (PyInt 1)"
    and "cfg_args cfg ''use_stemming'' = Some (PyBool False)"
    and "cfg_args cfg ''common_words_gazetteer_name'' = Some PyNone"
    and "0 \<le> token_index" and "token_index < int (length tokens)"
  shows "compute_feature env fitted tokens token_index =
         Inr (Some (normalize_token env (tokens ! nat token_index)))"
proof -
  from assms(1,3,4,5) obtain s0 where
    s0: "self = NgramFactory s0" "ng_n s0 = 1" "\<not> ng_use_stemming s0"
      "ng_common_words_gazetteer_name s0 = None" "ng_gazetteer s0 = None"
    by (auto simp: NgramFactory_init_def get_arg_def as_int_def as_bool_def as_opt_str_def
        NgramFactory_set_language_def Let_def bind_res_eq_Inr split: option.splits)
  with assms(2) obtain s where
    s: "fitted = NgramFactory s" "ng_n s = 1" "\<not> ng_use_stemming s" "ng_gazetteer s = None"
    by (auto simp: NgramFactory_set_language_def Let_def)
  with assms(6,7) show ?thesis
    by (simp add: NgramFactory_compute_feature_def Let_def py_slice_single)
qed

theorem unigram_is_normalization_witness:
  "compute_feature example_env
     (NgramFactory example_fitted_ngram_state) example_tokens 1 = Inr (Some ''new'')"
  using unigram_is_normalization [of example_env "example_config ''ngram'' example_ngram_args [0]"
      "NgramFactory example_ngram_state" example_dataset None
      "NgramFactory example_fitted_ngram_state" None 1 example_tokens]
  by (simp add: example_ngram_state_def example_fitted_ngram_state_def example_config_def example_ngram_args_def
      example_dataset_def example_tokens_def example_env_def
      NgramFactory_init_def get_arg_def args_get_def as_int_def as_bool_def as_opt_str_def
      NgramFactory_set_language_def Let_def set_arg_def)

text \<open>
  C9. \<open>get_feature_factory\<close> runs the constructor of the class whose name equals the
  configuration's \<open>factory_name\<close>; with no such class it fails with the ValueError that
  carries the name; a factory it returns is an instance of the class of that name, one of
  the eleven of \<open>FACTORIES\<close>.
\<close>

theorem get_feature_factory_lookup:
  "(\<forall>cls. cfg_factory_name cfg = class_name cls \<longrightarrow>
       get_feature_factory env cfg = construct env cls cfg)
   \<and> ((\<forall>cls. cfg_factory_name cfg \<noteq> class_name cls) \<longrightarrow>
       get_feature_factory env cfg =
         Inl (ValueError (''Unknown feature factory: '' @ cfg_factory_name cfg)))
   \<and> (\<forall>f. get_feature_factory env cfg = Inr f \<longrightarrow>
       class_name (class_of f) = cfg_factory_name cfg
       \<and> cfg_factory_name cfg \<in> set (map class_name FACTORIES))
   \<and> length FACTORIES = 11 \<and> distinct (map class_name FACTORIES)"
proof (intro conjI allI impI)
  fix cls assume "cfg_factory_name cfg = class_name cls"
  then show "get_feature_factory env cfg = construct env cls cfg"
    unfolding get_feature_factory_def by (rule get_feature_factory_from_known [OF all_classes])
next
  assume "\<forall>cls. cfg_factory_name cfg \<noteq> class_name cls"
  then have "cfg_factory_name cfg \<notin> class_name ` set FACTORIES" by auto
  then show "get_feature_factory env cfg =
         Inl (ValueError (''Unknown feature factory: '' @ cfg_factory_name cfg))"
    unfolding get_feature_factory_def by (rule get_feature_factory_from_unknown)
next
  fix f assume ok: "get_feature_factory env cfg = Inr f"
  have known: "\<exists>cls. cfg_factory_name cfg = class_name cls"
  proof (rule ccontr)
    assume "\<not> ?thesis"
    then have "cfg_factory_name cfg \<notin> class_name ` set FACTORIES" by auto
    then have "get_feature_factory env cfg =
         Inl (ValueError (''Unknown feature factory: '' @ cfg_factory_name cfg))"
      unfolding get_feature_factory_def by (rule get_feature_factory_from_unknown)
    with ok show False by simp
  qed
  then obtain cls where c: "cfg_factory_name cfg = class_name cls" by blast
  then have "get_feature_factory env cfg = construct env cls cfg"
    unfolding get_feature_factory_def by (rule get_feature_factory_from_known [OF all_classes])
  with ok have "class_of f = cls" by (simp add: construct_class_of)
  with c show "class_name (class_of f) = cfg_factory_name cfg" by simp
  from c all_classes [of cls] show "cfg_factory_name cfg \<in> set (map class_name FACTORIES)"
    by auto
next
  show "length FACTORIES = 11" by (simp add: FACTORIES_def)
next
  show "distinct (map class_name FACTORIES)" by (simp add: FACTORIES_def)
qed

theorem get_feature_factory_lookup_witness:
  "get_feature_factory example_env (example_config ''length'' Map.empty [0]) =
     Inr (LengthFactory (example_config ''length'' Map.empty [0]))
   \<and> get_feature_factory example_env (example_config ''lenght'' Map.empty [0]) =
     Inl (ValueError ''Unknown feature factory: lenght'')"
  using get_feature_factory_lookup [of "example_config ''length'' Map.empty [0]" example_env]
    get_feature_factory_lookup [of "example_config ''lenght'' Map.empty [0]" example_env]
  by (simp add: example_config_def get_feature_factory_def FACTORIES_def)

text \<open>
  C10. A language-dependent factory is built from a configuration and fitted. The
  configuration it then holds carries the dataset's language under \<open>language_code\<close>
  (and, for the builtin entity-match kind, the entity scope under \<open>entity_labels\<close>), and
  building a factory of the same class from that configuration gives a factory in the
  same state as the fitted one: it is bound to the language, and \<open>build_features\<close> on it,
  with no call of \<open>fit\<close>, returns what it returns on the fitted factory.
\<close>

theorem rebuilt_factory_is_bound:
  "construct env cls cfg = Inr self \<longrightarrow>
   fit env self dataset intent = Inr (fitted, returned) \<longrightarrow>
   cls \<in> {Ngram, ShapeNgram, WordCluster, EntityMatch, BuiltinEntityMatch} \<longrightarrow>
     cfg_args (factory_config fitted) ''language_code'' = Some (PyStr (ds_language dataset))
   \<and> (cls = BuiltinEntityMatch \<longrightarrow>
         cfg_args (factory_config fitted) ''entity_labels''
           = Some (PyStrList (get_builtin_entity_scope env dataset intent)))
   \<and> construct env cls (factory_config fitted) = Inr fitted
   \<and> (\<forall>rebuilt. construct env cls (factory_config fitted) = Inr rebuilt \<longrightarrow>
         language rebuilt = Some (ds_language dataset)
         \<and> build_features env rebuilt bp cp = build_features env fitted bp cp)"
proof (intro impI)
  assume c: "construct env cls cfg = Inr self"
    and f: "fit env self dataset intent = Inr (fitted, returned)"
    and k: "cls \<in> {Ngram, ShapeNgram, WordCluster, EntityMatch, BuiltinEntityMatch}"
  from c have cl: "class_of self = cls" by (rule construct_class_of)
  have r: "construct env cls (factory_config fitted) = Inr fitted"
    using c f k by (rule fit_rebuild)
  have w: "cfg_args (factory_config fitted) ''language_code'' = Some (PyStr (ds_language dataset))"
    "language fitted = Some (ds_language dataset)"
    using fit_writes_language [OF f] k cl by simp_all
  have e: "cls = BuiltinEntityMatch \<longrightarrow>
         cfg_args (factory_config fitted) ''entity_labels''
           = Some (PyStrList (get_builtin_entity_scope env dataset intent))"
    using fit_entity_labels(1) [OF f] cl by simp
  from r w e show "cfg_args (factory_config fitted) ''language_code''
       = Some (PyStr (ds_language dataset))
   \<and> (cls = BuiltinEntityMatch \<longrightarrow>
         cfg_args (factory_config fitted) ''entity_labels''
           = Some (PyStrList (get_builtin_entity_scope env dataset intent)))
   \<and> construct env cls (factory_config fitted) = Inr fitted
   \<and> (\<forall>rebuilt. construct env cls (factory_config fitted) = Inr rebuilt \<longrightarrow>
         language rebuilt = Some (ds_language dataset)
         \<and> build_features env rebuilt bp cp = build_features env fitted bp cp)"
    by simp
qed

theorem rebuilt_factory_is_bound_witness:
  "construct example_env Ngram (ng_config example_fitted_ngram_state)
     = Inr (NgramFactory example_fitted_ngram_state)
   \<and> cfg_args (ng_config example_fitted_ngram_state) ''language_code'' = Some (PyStr ''en'')
   \<and> language (NgramFactory example_fitted_ngram_state) = Some ''en''"
  using rebuilt_factory_is_bound [of example_env Ngram
      "example_config ''ngram'' example_ngram_args [0]" "NgramFactory example_ngram_state"
      example_dataset None "NgramFactory example_fitted_ngram_state" None
      example_builtin_parser example_custom_parser]
  by (simp add: example_ngram_state_def example_fitted_ngram_state_def example_config_def
      example_ngram_args_def example_dataset_def
      NgramFactory_init_def get_arg_def args_get_def as_int_def as_bool_def as_opt_str_def
      NgramFactory_set_language_def Let_def set_arg_def)

end
